theory Spec2Isabelle
  imports Main "HOL-Library.Word" "HOL-Library.List_Lexorder" "HOL-Library.Char_ord"
begin

section \<open>Errors\<close>

text \<open>
  A Go \<open>error\<close> value. \<open>Err m\<close> is an error made by \<open>errors.New\<close> or by
  \<open>fmt.Errorf\<close> with \<open>%v\<close>/\<open>%s\<close> verbs only (its message is \<open>m\<close>);
  \<open>Wrap p e\<close> is \<open>fmt.Errorf(p + "%w", e)\<close>, which keeps the wrapped error.
\<close>

datatype error = Err string | Wrap string error

fun Error_msg :: "error \<Rightarrow> string" where
  "Error_msg (Err m) = m"
| "Error_msg (Wrap p e) = p @ Error_msg e"

section \<open>ShardAssigner: \<open>populateBackupShardField\<close> (pkg/backup/backuper.go)\<close>

text \<open>The package variable \<open>errShardOperationUnsupported\<close>.\<close>

definition errShardOperationUnsupported :: error where
  "errShardOperationUnsupported = Err ''sharded operations are not supported''"

text \<open>
  Modelled from the spec: the declaration of \<open>clickhouse.ShardBackupType\<close> and of its
  constants \<open>ShardBackupFull\<close>, \<open>ShardBackupNone\<close>, \<open>ShardBackupSchema\<close> is not among the
  sources; the data model gives \<open>BackupType\<close> the three values Full, SchemaOnly, None.
\<close>

datatype ShardBackupType = ShardBackupFull | ShardBackupNone | ShardBackupSchema

text \<open>The fields of \<open>clickhouse.Table\<close> that \<open>populateBackupShardField\<close> reads or writes.\<close>

record Table =
  Database :: string
  Name :: string
  Skip :: bool
  BackupType :: ShardBackupType

text \<open>
  \<open>shardDetermination\<close> is known here through its method \<open>inShard(database, table)\<close>,
  and a \<open>backupSharder\<close> through its method \<open>determineShards(ctx)\<close>: each is modelled
  by what the method returns.
\<close>

type_synonym shardDetermination = "string \<Rightarrow> string \<Rightarrow> error + bool"

type_synonym backupSharder = "error + shardDetermination"

text \<open>
  The collaborators of \<open>populateBackupShardField\<close> whose code is in other files:
  \<open>doesShard\<close>, \<open>b.vers.CanShardOperation(ctx)\<close> (\<open>None\<close> is a nil error),
  \<open>shardFuncByName\<close> and \<open>newReplicaDeterminer(b.ch, _)\<close>.
\<close>

record 'sf ShardEnv =
  doesShard :: "string \<Rightarrow> bool"
  CanShardOperation :: "error option"
  shardFuncByName :: "string \<Rightarrow> error + 'sf"
  newReplicaDeterminer :: "'sf \<Rightarrow> backupSharder"

text \<open>
  The fields of \<open>Backuper\<close> that the functions below use:
  \<open>b.cfg.General.ShardedOperationMode\<close>, \<open>b.bs\<close> and \<open>b.DefaultDataPath\<close>.
\<close>

record Backuper =
  ShardedOperationMode :: string
  bs :: "backupSharder option"
  DefaultDataPath :: string

text \<open>The body of the first loop: \<open>BackupType\<close> becomes Full, then None when the table is skipped.\<close>

definition setDefaultBackupType :: "Table \<Rightarrow> Table" where
  "setDefaultBackupType t =
     (let t1 = t\<lparr>BackupType := ShardBackupFull\<rparr>
      in if Skip t1 then t1\<lparr>BackupType := ShardBackupNone\<rparr> else t1)"

text \<open>
  The second loop, \<open>for i, t := range tables\<close>. Iteration \<open>i\<close> reads and writes
  \<open>tables[i]\<close> only, so the loop is a recursion over the slice; on a lookup error it
  returns at once and the remaining tables stay as they are.
\<close>

fun inShardLoop :: "shardDetermination \<Rightarrow> Table list \<Rightarrow> Table list \<times> error option" where
  "inShardLoop assignment [] = ([], None)"
| "inShardLoop assignment (t # ts) =
     (if Skip t then
        (case inShardLoop assignment ts of (ts', r) \<Rightarrow> (t # ts', r))
      else
        (case assignment (Database t) (Name t) of
           Inl err \<Rightarrow> (t # ts, Some err)
         | Inr fullBackup \<Rightarrow>
             (case inShardLoop assignment ts of (ts', r) \<Rightarrow>
                ((if \<not> fullBackup then t\<lparr>BackupType := ShardBackupSchema\<rparr> else t) # ts', r))))"

text \<open>
  \<open>populateBackupShardField\<close> mutates the slice and \<open>b.bs\<close> in place and returns an error;
  the model returns the Backuper and the slice as they are when the function returns,
  and the error (\<open>None\<close> for nil).
\<close>

definition populateBackupShardField ::
  "'sf ShardEnv \<Rightarrow> Backuper \<Rightarrow> Table list \<Rightarrow> Backuper \<times> Table list \<times> error option" where
  "populateBackupShardField env b tables0 =
     (let tables = map setDefaultBackupType tables0 in
      if \<not> doesShard env (ShardedOperationMode b) then (b, tables, None)
      else case CanShardOperation env of
        Some err \<Rightarrow> (b, tables, Some err)
      | None \<Rightarrow>
         (case (case bs b of
                  Some s \<Rightarrow> Inr (b, s)
                | None \<Rightarrow>
                   (case shardFuncByName env (ShardedOperationMode b) of
                      Inl err \<Rightarrow> Inl (Wrap ''could not determine shards for tables: '' err)
                    | Inr shardFunc \<Rightarrow>
                        (let s = newReplicaDeterminer env shardFunc
                         in Inr (b\<lparr>bs := Some s\<rparr>, s)))) of
            Inl err \<Rightarrow> (b, tables, Some err)
          | Inr (b1, s) \<Rightarrow>
             (case s of
                Inl err \<Rightarrow> (b1, tables, Some err)
              | Inr assignment \<Rightarrow>
                 (case inShardLoop assignment tables of (tables', r) \<Rightarrow> (b1, tables', r)))))"

section \<open>Strings and paths of the Go standard library\<close>

text \<open>\<open>strings.HasPrefix(s, prefix)\<close> and \<open>strings.TrimPrefix(s, prefix)\<close>.\<close>

definition HasPrefix :: "string \<Rightarrow> string \<Rightarrow> bool" where
  "HasPrefix s p = (length p \<le> length s \<and> take (length p) s = p)"

definition TrimPrefix :: "string \<Rightarrow> string \<Rightarrow> string" where
  "TrimPrefix s p = (if HasPrefix s p then drop (length p) s else s)"

text \<open>The elements of a path between its slashes: \<open>a//b\<close> has the elements \<open>a\<close>, the empty one and \<open>b\<close>.\<close>

fun splitSlash :: "string \<Rightarrow> string list" where
  "splitSlash [] = [[]]"
| "splitSlash (c # cs) =
     (if c = CHR ''/'' then [] # splitSlash cs
      else (case splitSlash cs of [] \<Rightarrow> [[c]] | e # es \<Rightarrow> (c # e) # es))"

fun joinSlash :: "string list \<Rightarrow> string" where
  "joinSlash [] = []"
| "joinSlash [e] = e"
| "joinSlash (e # es) = e @ ''/'' @ joinSlash es"

text \<open>
  \<open>path.Clean\<close>: empty and \<open>.\<close> elements are dropped, a \<open>..\<close> element removes the
  element before it when there is one that is not itself \<open>..\<close>, is dropped at the root of
  a rooted path and is kept otherwise; an empty result is \<open>.\<close>. \<open>cleanElems\<close> keeps the
  elements written so far in reverse.
\<close>

fun cleanElems :: "bool \<Rightarrow> string list \<Rightarrow> string list \<Rightarrow> string list" where
  "cleanElems rooted out [] = rev out"
| "cleanElems rooted out (e # es) =
     (if e = [] \<or> e = ''.'' then cleanElems rooted out es
      else if e = ''..'' then
        (case out of
           o1 # out' \<Rightarrow>
             (if o1 = ''..'' then cleanElems rooted (e # out) es else cleanElems rooted out' es)
         | [] \<Rightarrow> (if rooted then cleanElems rooted out es else cleanElems rooted (e # out) es))
      else cleanElems rooted (e # out) es)"

definition path_Clean :: "string \<Rightarrow> string" where
  "path_Clean p =
     (if p = [] then ''.''
      else (let rooted = (hd p = CHR ''/'');
                res = (if rooted then ''/'' else []) @ joinSlash (cleanElems rooted [] (splitSlash p))
            in if res = [] then ''.'' else res))"

text \<open>\<open>path.Join\<close>: the non-empty elements joined by slashes and cleaned; the empty string when there are none.\<close>

definition path_Join :: "string list \<Rightarrow> string" where
  "path_Join elem =
     (let es = filter (\<lambda>e. e \<noteq> []) elem
      in if es = [] then [] else path_Clean (joinSlash es))"

section \<open>DiskClassifier: \<open>isDiskTypeObject\<close>, \<open>isDiskTypeEncryptedObject\<close> (pkg/backup/backuper.go)\<close>

text \<open>\<open>clickhouse.Disk\<close>.\<close>

record Disk =
  Name :: string
  Path :: string
  Type :: string
  IsBackup :: bool

definition isDiskTypeObject :: "string \<Rightarrow> bool" where
  "isDiskTypeObject diskType =
     (diskType = ''s3'' \<or> diskType = ''azure_blob_storage'' \<or> diskType = ''azure'')"

text \<open>
  The loop \<open>for i, d := range disks\<close> over the pair \<open>(underlyingIdx, underlyingPath)\<close>;
  \<open>i\<close> is the index of the head of the remaining list. Go compares strings bytewise,
  as the lexicographic order on \<open>string\<close> does.
\<close>

fun underlyingLoop :: "Disk \<Rightarrow> nat \<Rightarrow> Disk list \<Rightarrow> int \<times> string \<Rightarrow> int \<times> string" where
  "underlyingLoop disk i [] st = st"
| "underlyingLoop disk i (d # ds) (underlyingIdx, underlyingPath) =
     underlyingLoop disk (Suc i) ds
       (if Disk.Name d \<noteq> Disk.Name disk \<and> HasPrefix (Disk.Path disk) (Disk.Path d)
           \<and> isDiskTypeObject (Type d)
        then (if Disk.Path d > underlyingPath then (int i, Disk.Path d)
              else (underlyingIdx, underlyingPath))
        else (underlyingIdx, underlyingPath))"

definition isDiskTypeEncryptedObject :: "Disk \<Rightarrow> Disk list \<Rightarrow> bool" where
  "isDiskTypeEncryptedObject disk disks =
     (if Type disk \<noteq> ''encrypted'' then False
      else (case underlyingLoop disk 0 disks (- 1, []) of
              (underlyingIdx, underlyingPath) \<Rightarrow> underlyingIdx \<ge> 0))"

section \<open>DestinationLocator: \<open>buildEmbeddedLocationS3\<close> (pkg/backup/backuper.go)\<close>

text \<open>
  A Go function either returns or panics (a nil pointer dereference, a slice bound out
  of range).
\<close>

datatype 'a outcome = Return 'a | Panic string

text \<open>\<open>url.Userinfo\<close> and \<open>url.URL\<close> of the standard library.\<close>

record Userinfo =
  username :: string
  password :: string
  passwordSet :: bool

record URL =
  Scheme :: string
  Opaque :: string
  User :: "Userinfo option"
  Host :: string
  Path :: string
  RawPath :: string
  OmitHost :: bool
  ForceQuery :: bool
  RawQuery :: string
  Fragment :: string
  RawFragment :: string

text \<open>The zero value \<open>url.URL{}\<close>.\<close>

definition zeroURL :: URL where
  "zeroURL = \<lparr>Scheme = [], Opaque = [], User = None, Host = [], Path = [], RawPath = [],
     OmitHost = False, ForceQuery = False, RawQuery = [], Fragment = [], RawFragment = []\<rparr>"

text \<open>The fields of \<open>config.S3Config\<close> that the function reads.\<close>

record S3Config =
  Endpoint :: string
  Bucket :: string
  ObjectDiskPath :: string
  DisableSSL :: bool
  Region :: string
  ForcePathStyle :: bool

text \<open>
  The value of the local variable \<open>url\<close> when \<open>buildEmbeddedLocationS3\<close> reaches its
  return statement. In the function the local variable \<open>url\<close> shadows the package, so
  \<open>url.Parse(endpoint)\<close> is the method \<open>(*URL).Parse\<close> of the standard library on the
  URL built so far: it is the parameter \<open>URL_Parse\<close>, \<open>None\<close> when it returns
  \<open>nil, err\<close>. The error is dropped and \<open>*newUrl\<close> is dereferenced, which panics on nil.
\<close>

definition embeddedLocationS3URL :: "(URL \<Rightarrow> string \<Rightarrow> URL option) \<Rightarrow> S3Config \<Rightarrow> URL outcome" where
  "embeddedLocationS3URL URL_Parse s3 =
     (let url0 = zeroURL\<lparr>Scheme := ''https''\<rparr> in
      case (if HasPrefix (Endpoint s3) ''http'' then
              (case URL_Parse url0 (Endpoint s3) of
                 None \<Rightarrow> Panic ''invalid memory address or nil pointer dereference''
               | Some newUrl \<Rightarrow>
                   Return (newUrl\<lparr>URL.Path := path_Join [Bucket s3, ObjectDiskPath s3]\<rparr>))
            else
              Return (url0\<lparr>Host := Endpoint s3,
                              URL.Path := path_Join [Bucket s3, ObjectDiskPath s3]\<rparr>)) of
        Panic m \<Rightarrow> Panic m
      | Return url1 \<Rightarrow>
         (let url2 = (if DisableSSL s3 then url1\<lparr>Scheme := ''http''\<rparr> else url1);
              url3 = (if Host url2 = [] \<and> Region s3 \<noteq> [] \<and> ForcePathStyle s3
                      then url2\<lparr>Host := ''s3.'' @ Region s3 @ ''.amazonaws.com'',
                                 URL.Path := path_Join [Bucket s3, ObjectDiskPath s3]\<rparr>
                      else url2);
              url4 = (if Host url3 = [] \<and> Bucket s3 \<noteq> [] \<and> \<not> ForcePathStyle s3
                      then url3\<lparr>Host := Bucket s3 @ ''.'' @ ''s3.'' @ Region s3 @ ''.amazonaws.com'',
                                 URL.Path := ObjectDiskPath s3\<rparr>
                      else url3)
          in Return url4))"

text \<open>
  \<open>buildEmbeddedLocationS3\<close> returns \<open>url.String()\<close>; the method \<open>(*URL).String\<close> of the
  standard library is the parameter \<open>URL_String\<close>.
\<close>

definition buildEmbeddedLocationS3 ::
  "(URL \<Rightarrow> string \<Rightarrow> URL option) \<Rightarrow> (URL \<Rightarrow> string) \<Rightarrow> S3Config \<Rightarrow> string outcome" where
  "buildEmbeddedLocationS3 URL_Parse URL_String s3 =
     (case embeddedLocationS3URL URL_Parse s3 of
        Panic m \<Rightarrow> Panic m
      | Return url \<Rightarrow> Return (URL_String url))"

section \<open>DiffResolver: \<open>getTablesDiffFromLocal\<close>, \<open>getTablesDiffFromRemote\<close> (pkg/backup/backuper.go)\<close>

text \<open>\<open>metadata.Part\<close>, \<open>metadata.TableTitle\<close>, \<open>metadata.TableMetadata\<close> and
  \<open>metadata.BackupMetadata\<close>, with the fields that the code below uses. A Go map that
  the code ranges over (\<open>Parts\<close>) is the list of its entries in the order the range
  statement yields them; a map that is only written and read by key (\<open>Files\<close>) is a
  HOL map.\<close>

record Part =
  Name :: string

record TableTitle =
  Database :: string
  Table :: string

record TableMetadata =
  Table :: string
  Database :: string
  UUID :: string
  Parts :: "(string \<times> Part list) list"
  Files :: "string \<rightharpoonup> string list"

record BackupMetadata =
  BackupName :: string
  Tables :: "TableTitle list"

text \<open>\<open>storage.Backup\<close> embeds \<open>metadata.BackupMetadata\<close>, so \<open>backup.BackupName\<close> is
  \<open>backup.BackupMetadata.BackupName\<close>.\<close>

record Backup =
  BackupMetadata :: BackupMetadata

text \<open>
  The collaborators of the two functions whose code is in other files:
  \<open>b.ReadBackupMetadataLocal(ctx, name)\<close>,
  \<open>b.getTableListByPatternLocal(ctx, metadataPath, tablePattern, dropTable, partitions)\<close>
  (its second result is dropped by the caller),
  \<open>b.dst.BackupList(ctx, parseMetadata, parseMetadataOnly)\<close> and
  \<open>getTableListByPatternRemote(ctx, b, remoteBackupMetadata, tablePattern, dropTable)\<close>.
\<close>

record DiffEnv =
  ReadBackupMetadataLocal :: "string \<Rightarrow> error + BackupMetadata"
  getTableListByPatternLocal :: "string \<Rightarrow> string \<Rightarrow> bool \<Rightarrow> string list \<Rightarrow> error + TableMetadata list"
  BackupList :: "bool \<Rightarrow> string \<Rightarrow> error + Backup list"
  getTableListByPatternRemote :: "BackupMetadata \<Rightarrow> string \<Rightarrow> bool \<Rightarrow> error + TableMetadata list"

text \<open>The loop \<open>for _, t := range diffTablesList\<close> that fills the map.\<close>

fun fillTablesForUploadFromDiff ::
  "(TableTitle \<rightharpoonup> TableMetadata) \<Rightarrow> TableMetadata list \<Rightarrow> (TableTitle \<rightharpoonup> TableMetadata)" where
  "fillTablesForUploadFromDiff m [] = m"
| "fillTablesForUploadFromDiff m (t # ts) =
     fillTablesForUploadFromDiff
       (m(\<lparr>TableTitle.Database = TableMetadata.Database t,
           TableTitle.Table = TableMetadata.Table t\<rparr> \<mapsto> t)) ts"

definition getTablesDiffFromLocal ::
  "DiffEnv \<Rightarrow> Backuper \<Rightarrow> string \<Rightarrow> string \<Rightarrow> error + (TableTitle \<rightharpoonup> TableMetadata)" where
  "getTablesDiffFromLocal env b diffFrom tablePattern =
     (let tablesForUploadFromDiff = Map.empty in
      case ReadBackupMetadataLocal env diffFrom of
        Inl err \<Rightarrow> Inl err
      | Inr diffFromBackup \<Rightarrow>
          (if length (Tables diffFromBackup) \<noteq> 0 then
             (let metadataPath = path_Join [DefaultDataPath b, ''backup'', diffFrom, ''metadata''] in
              case getTableListByPatternLocal env metadataPath tablePattern False [] of
                Inl err \<Rightarrow> Inl err
              | Inr diffTablesList \<Rightarrow>
                  Inr (fillTablesForUploadFromDiff tablesForUploadFromDiff diffTablesList))
           else Inr tablesForUploadFromDiff))"

text \<open>The loop \<open>for _, backup := range backupList\<close>, which stops at the first backup of that name;
  \<open>None\<close> is the nil pointer.\<close>

fun findDiffRemoteMetadata :: "string \<Rightarrow> Backup list \<Rightarrow> BackupMetadata option" where
  "findDiffRemoteMetadata diffFromRemote [] = None"
| "findDiffRemoteMetadata diffFromRemote (backup # rest) =
     (if BackupName (BackupMetadata backup) = diffFromRemote then Some (BackupMetadata backup)
      else findDiffRemoteMetadata diffFromRemote rest)"

definition getTablesDiffFromRemote ::
  "DiffEnv \<Rightarrow> Backuper \<Rightarrow> string \<Rightarrow> string \<Rightarrow> error + (TableTitle \<rightharpoonup> TableMetadata)" where
  "getTablesDiffFromRemote env b diffFromRemote tablePattern =
     (let tablesForUploadFromDiff = Map.empty in
      case BackupList env True diffFromRemote of
        Inl err \<Rightarrow> Inl err
      | Inr backupList \<Rightarrow>
          (case findDiffRemoteMetadata diffFromRemote backupList of
             None \<Rightarrow> Inl (Err (diffFromRemote @ '' not found on remote storage''))
           | Some diffRemoteMetadata \<Rightarrow>
               (if length (Tables diffRemoteMetadata) \<noteq> 0 then
                  (case getTableListByPatternRemote env diffRemoteMetadata tablePattern False of
                     Inl err \<Rightarrow> Inl err
                   | Inr diffTablesList \<Rightarrow>
                       Inr (fillTablesForUploadFromDiff tablesForUploadFromDiff diffTablesList))
                else Inr tablesForUploadFromDiff)))"

section \<open>PartBatcher: \<open>separateParts\<close> (the upload pathway with \<open>Upload\<close>)\<close>

text \<open>Go's \<open>int64\<close>: addition wraps, comparison is signed (\<open><s\<close>).\<close>

type_synonym int64 = "64 word"

text \<open>What the callback reads of an \<open>os.FileInfo\<close>: \<open>info.Mode().IsRegular()\<close> and \<open>info.Size()\<close>.\<close>

record FileInfo =
  IsRegular :: bool
  Size :: int64

text \<open>
  One call that \<open>filepath.Walk\<close> makes to its callback \<open>func(filePath, info, err)\<close>:
  \<open>Visit filePath info\<close> has a nil \<open>err\<close>, \<open>Failed filePath err\<close> reports that reading
  \<open>filePath\<close> failed with \<open>err\<close>. A file system gives, for a root, the calls in the order
  \<open>filepath.Walk\<close> makes them.
\<close>

datatype walkCall = Visit string FileInfo | Failed string error

type_synonym filesystem = "string \<Rightarrow> walkCall list"

text \<open>
  \<open>filepath.Walk(root, fn)\<close> over a state that the callback updates: it stops at the first call
  whose callback returns an error, and returns that error.
\<close>

fun filepath_Walk ::
  "(walkCall \<Rightarrow> 's \<Rightarrow> 's \<times> error option) \<Rightarrow> walkCall list \<Rightarrow> 's \<Rightarrow> 's \<times> error option" where
  "filepath_Walk fn [] st = (st, None)"
| "filepath_Walk fn (c # cs) st =
     (case fn c st of
        (st', Some err) \<Rightarrow> (st', Some err)
      | (st', None) \<Rightarrow> filepath_Walk fn cs st')"

text \<open>The variables \<open>size\<close>, \<open>files\<close> and \<open>result\<close> that the callback closes over.\<close>

record sepState =
  cur_size :: int64
  files :: "string list"
  result :: "string list list"

text \<open>The callback of \<open>separateParts\<close>.\<close>

fun walkFn :: "string \<Rightarrow> int64 \<Rightarrow> walkCall \<Rightarrow> sepState \<Rightarrow> sepState \<times> error option" where
  "walkFn basePath maxSize (Failed filePath err) st = (st, Some err)"
| "walkFn basePath maxSize (Visit filePath info) st =
     (if \<not> IsRegular info then (st, None)
      else
        (let st1 = (if maxSize <s cur_size st + Size info
                    then st\<lparr>result := result st @ [files st], files := [], cur_size := 0\<rparr>
                    else st);
             relativePath = TrimPrefix filePath basePath
         in (st1\<lparr>files := files st1 @ [relativePath], cur_size := cur_size st1 + Size info\<rparr>,
             None)))"

text \<open>The loop \<open>for i := range parts\<close>; what \<open>filepath.Walk\<close> returns is dropped.\<close>

fun partsLoop :: "filesystem \<Rightarrow> string \<Rightarrow> int64 \<Rightarrow> Part list \<Rightarrow> sepState \<Rightarrow> sepState" where
  "partsLoop fs basePath maxSize [] st = st"
| "partsLoop fs basePath maxSize (p # ps) st =
     (let partPath = path_Join [basePath, Part.Name p]
      in case filepath_Walk (walkFn basePath maxSize) (fs partPath) st of
           (st', _) \<Rightarrow> partsLoop fs basePath maxSize ps st')"

definition separateParts ::
  "filesystem \<Rightarrow> string \<Rightarrow> Part list \<Rightarrow> int64 \<Rightarrow> string list list \<times> error option" where
  "separateParts fs basePath parts maxSize =
     (let st = partsLoop fs basePath maxSize parts \<lparr>cur_size = 0, files = [], result = []\<rparr>
      in if length (files st) > 0 then (result st @ [files st], None) else (result st, None))"

subsection \<open>The walked file list and the size bound of a batch\<close>

text \<open>The visits of a walk that the callback of \<open>separateParts\<close> sees: those before the first failure.\<close>

fun visited :: "walkCall list \<Rightarrow> (string \<times> FileInfo) list" where
  "visited [] = []"
| "visited (Failed filePath err # cs) = []"
| "visited (Visit filePath info # cs) = (filePath, info) # visited cs"

text \<open>The regular files that \<open>separateParts\<close> walks, part after part, each in listing order.\<close>

definition walkedFiles :: "filesystem \<Rightarrow> string \<Rightarrow> Part list \<Rightarrow> (string \<times> FileInfo) list" where
  "walkedFiles fs basePath parts =
     concat (map (\<lambda>p. filter (\<lambda>(filePath, info). IsRegular info)
                         (visited (fs (path_Join [basePath, Part.Name p])))) parts)"

definition cumulativeSize :: "(string \<times> FileInfo) list \<Rightarrow> int" where
  "cumulativeSize b = sum_list (map (\<lambda>(filePath, info). sint (Size info)) b)"

text \<open>A batch is within the bound when its cumulative size does not exceed \<open>maxSize\<close>, or when it
  is a single file that is itself larger than \<open>maxSize\<close>.\<close>

definition withinBound :: "int64 \<Rightarrow> (string \<times> FileInfo) list \<Rightarrow> bool" where
  "withinBound maxSize b =
     (cumulativeSize b \<le> sint maxSize \<or>
      (length b = 1 \<and> sint maxSize < sint (Size (snd (hd b)))))"

text \<open>\<open>gs\<close> splits the walked file list into consecutive groups, and the batches that
  \<open>separateParts\<close> returns are the relative paths of these groups.\<close>

definition batchesOf ::
  "filesystem \<Rightarrow> string \<Rightarrow> Part list \<Rightarrow> int64 \<Rightarrow> (string \<times> FileInfo) list list \<Rightarrow> bool" where
  "batchesOf fs basePath parts maxSize gs =
     (fst (separateParts fs basePath parts maxSize) =
        map (map (\<lambda>(filePath, info). TrimPrefix filePath basePath)) gs \<and>
      concat gs = walkedFiles fs basePath parts)"

text \<open>Shorthands for the proofs about \<open>separateParts\<close>: the relative path that the callback
  appends for a walked file, and the callback applied to a walked file.\<close>

abbreviation (input) relativeTo :: "string \<Rightarrow> string \<times> FileInfo \<Rightarrow> string" where
  "relativeTo basePath \<equiv> (\<lambda>(filePath, info). TrimPrefix filePath basePath)"

definition addFile :: "string \<Rightarrow> int64 \<Rightarrow> sepState \<Rightarrow> string \<times> FileInfo \<Rightarrow> sepState" where
  "addFile basePath maxSize st e = fst (walkFn basePath maxSize (Visit (fst e) (snd e)) st)"

section \<open>The upload pathway: \<open>Upload\<close>\<close>

text \<open>What \<open>Upload\<close> reads of \<open>config.Config\<close>: \<open>cfg.General.RemoteStorage\<close>,
  \<open>cfg.General.MaxFileSize\<close> and \<open>cfg.GetArchiveExtension()\<close>.\<close>

record Config =
  RemoteStorage :: string
  MaxFileSize :: int64
  ArchiveExtension :: string

text \<open>
  What \<open>Upload\<close> does to the outside world, in order: what it prints and logs, the
  connections it opens and closes, what it writes to or removes from remote storage,
  and its call of \<open>PrintLocalBackups\<close>, whose code is in another file. A call is
  recorded when it is made, whether or not it succeeds.
\<close>

datatype event =
    Println string
  | PrintLocalBackups string
  | ClickHouse_Connect
  | ClickHouse_Close
  | NewBackupDestination
  | Destination_Connect
  | Infof string
  | CompressedStreamUpload string "string list" string
  | PutFile string string
  | RemoveOldBackups

text \<open>
  The collaborators of \<open>Upload\<close> whose code is in other files or packages, each by what
  it returns (\<open>None\<close> is a nil error): \<open>ch.Connect()\<close>, \<open>new_storage.NewBackupDestination(cfg)\<close>,
  the methods of the destination \<open>bd\<close>, \<open>GetLocalBackup\<close>, \<open>ch.GetDefaultPath()\<close>,
  \<open>ch.GetDisks()\<close>, \<open>os.Stat\<close> (its error), \<open>parseSchemaPattern\<close>, the file tree that
  \<open>filepath.Walk\<close> reads, \<open>json.MarshalIndent\<close>, \<open>ioutil.ReadFile\<close>,
  \<open>clickhouse.TablePathEncode\<close> and the package variable \<open>ErrUnknownClickhouseDataPath\<close>.
\<close>

record World =
  ch_Connect :: "error option"
  newBackupDestination :: "error option"
  bd_Connect :: "error option"
  bd_Kind :: string
  getLocalBackup :: "string \<Rightarrow> error option"
  ch_GetDefaultPath :: "error + string"
  ch_GetDisks :: "error + Disk list"
  os_Stat :: "string \<Rightarrow> error option"
  parseSchemaPattern :: "string \<Rightarrow> string \<Rightarrow> TableMetadata list \<times> error option"
  fileTree :: filesystem
  bd_CompressedStreamUpload :: "string \<Rightarrow> string list \<Rightarrow> string \<Rightarrow> error option"
  json_MarshalIndent :: "TableMetadata \<Rightarrow> error + string"
  bd_PutFile :: "string \<Rightarrow> string \<Rightarrow> error option"
  ioutil_ReadFile :: "string \<Rightarrow> error + string"
  bd_RemoveOldBackups :: "error option"
  TablePathEncode :: "string \<Rightarrow> string"
  ErrUnknownClickhouseDataPath :: error

text \<open>Reading a Go map at a key: the zero value (the empty string, the nil slice) when the key is absent.\<close>

definition mapIndex :: "('k \<rightharpoonup> 'a list) \<Rightarrow> 'k \<Rightarrow> 'a list" where
  "mapIndex m k = (case m k of None \<Rightarrow> [] | Some v \<Rightarrow> v)"

text \<open>The verb \<open>%d\<close> of \<open>fmt\<close> on a number that is not negative.\<close>

fun digits :: "nat \<Rightarrow> string" where
  "digits n =
     (if n < 10 then [''0123456789'' ! n]
      else digits (n div 10) @ [''0123456789'' ! (n mod 10)])"

declare digits.simps [simp del]

text \<open>The loop \<open>for _, disk := range disks\<close> that fills \<open>diskMap\<close>.\<close>

fun fillDiskMap :: "(string \<rightharpoonup> string) \<Rightarrow> Disk list \<Rightarrow> (string \<rightharpoonup> string)" where
  "fillDiskMap diskMap [] = diskMap"
| "fillDiskMap diskMap (disk # disks) = fillDiskMap (diskMap(Disk.Name disk \<mapsto> Disk.Path disk)) disks"

text \<open>
  The loop \<open>for i, p := range parts\<close> over the batches of one disk, from index \<open>i\<close> on.
  It returns the events, and either the error that \<open>Upload\<close> returns or \<open>metdataFiles\<close>.
\<close>

fun uploadBatches ::
  "World \<Rightarrow> Config \<Rightarrow> string \<Rightarrow> TableMetadata \<Rightarrow> string \<Rightarrow> string \<Rightarrow> nat \<Rightarrow> string list list
     \<Rightarrow> (string \<rightharpoonup> string list) \<Rightarrow> event list \<times> (error + (string \<rightharpoonup> string list))" where
  "uploadBatches w cfg backupName table disk backupPath i [] metdataFiles = ([], Inr metdataFiles)"
| "uploadBatches w cfg backupName table disk backupPath i (p # ps) metdataFiles =
     (let fileName = disk @ ''_'' @ digits (i + 1) @ ''.'' @ ArchiveExtension cfg;
          metdataFiles1 = metdataFiles(disk \<mapsto> mapIndex metdataFiles disk @ [fileName]);
          remoteDataFile = path_Join [backupName, ''shadow'',
             TablePathEncode w (TableMetadata.Database table),
             TablePathEncode w (TableMetadata.Table table), fileName];
          ev = CompressedStreamUpload backupPath p remoteDataFile
      in case bd_CompressedStreamUpload w backupPath p remoteDataFile of
           Some err \<Rightarrow> ([ev], Inl (Err (''can't upload: '' @ Error_msg err)))
         | None \<Rightarrow>
             (case uploadBatches w cfg backupName table disk backupPath (i + 1) ps metdataFiles1 of
                (evs, r) \<Rightarrow> (ev # evs, r)))"

text \<open>The loop \<open>for disk := range table.Parts\<close>, over the entries of the map in the order of the range.\<close>

fun uploadDisks ::
  "World \<Rightarrow> Config \<Rightarrow> (string \<rightharpoonup> string) \<Rightarrow> string \<Rightarrow> TableMetadata \<Rightarrow> string
     \<Rightarrow> (string \<times> Part list) list \<Rightarrow> (string \<rightharpoonup> string list)
     \<Rightarrow> event list \<times> (error + (string \<rightharpoonup> string list))" where
  "uploadDisks w cfg diskMap backupName table uuid [] metdataFiles = ([], Inr metdataFiles)"
| "uploadDisks w cfg diskMap backupName table uuid ((disk, diskParts) # rest) metdataFiles =
     (let backupPath = path_Join [mapIndex diskMap disk, ''backup'', backupName, ''shadow'', uuid]
      in case separateParts (fileTree w) backupPath diskParts (MaxFileSize cfg) of
           (parts, Some err) \<Rightarrow> ([], Inl err)
         | (parts, None) \<Rightarrow>
             (let ev = Infof (''Upload table: '' @ TableMetadata.Database table @ ''.''
                         @ TableMetadata.Table table @ '', disk: '' @ disk
                         @ '', num files: '' @ digits (length diskParts)
                         @ '', num dst files: '' @ digits (length parts))
              in case uploadBatches w cfg backupName table disk backupPath 0 parts metdataFiles of
                   (evs, Inl err) \<Rightarrow> (ev # evs, Inl err)
                 | (evs, Inr metdataFiles1) \<Rightarrow>
                     (case uploadDisks w cfg diskMap backupName table uuid rest metdataFiles1 of
                        (evs', r) \<Rightarrow> (ev # evs @ evs', r))))"

text \<open>
  The body of the loop \<open>for _, table := range tablesForUpload\<close>: \<open>Return None\<close> when the body
  reaches its end, \<open>Return (Some err)\<close> when \<open>Upload\<close> returns \<open>err\<close> from inside it, and a
  panic when \<open>table.UUID[0:3]\<close> is out of range.
\<close>

definition uploadTable ::
  "World \<Rightarrow> Config \<Rightarrow> (string \<rightharpoonup> string) \<Rightarrow> string \<Rightarrow> bool \<Rightarrow> TableMetadata
     \<Rightarrow> event list \<times> error option outcome" where
  "uploadTable w cfg diskMap backupName schemaOnly table =
     (if UUID table \<noteq> [] \<and> length (UUID table) < 3
      then ([], Panic ''slice bounds out of range'')
      else
       (let uuid = (if UUID table \<noteq> [] then path_Join [take 3 (UUID table), UUID table]
                    else path_Join [TablePathEncode w (TableMetadata.Database table),
                                    TablePathEncode w (TableMetadata.Table table)])
        in case (if \<not> schemaOnly
                 then uploadDisks w cfg diskMap backupName table uuid (Parts table) Map.empty
                 else ([], Inr Map.empty)) of
             (evs, Inl err) \<Rightarrow> (evs, Return (Some err))
           | (evs, Inr metdataFiles) \<Rightarrow>
               (let tableMetafile = table\<lparr>Files := metdataFiles\<rparr>
                in case json_MarshalIndent w tableMetafile of
                     Inl err \<Rightarrow> (evs, Return (Some (Err (''can't marshal json: '' @ Error_msg err))))
                   | Inr content \<Rightarrow>
                       (let remoteTableMetaFile = path_Join [backupName, ''metadata'',
                              TablePathEncode w (TableMetadata.Database table),
                              TablePathEncode w (TableMetadata.Table table) @ ''.'' @ ''json''];
                            ev = PutFile remoteTableMetaFile content
                        in case bd_PutFile w remoteTableMetaFile content of
                             Some err \<Rightarrow>
                               (evs @ [ev], Return (Some (Err (''can't upload: '' @ Error_msg err))))
                           | None \<Rightarrow> (evs @ [ev], Return None)))))"

fun uploadTables ::
  "World \<Rightarrow> Config \<Rightarrow> (string \<rightharpoonup> string) \<Rightarrow> string \<Rightarrow> bool \<Rightarrow> TableMetadata list
     \<Rightarrow> event list \<times> error option outcome" where
  "uploadTables w cfg diskMap backupName schemaOnly [] = ([], Return None)"
| "uploadTables w cfg diskMap backupName schemaOnly (table # rest) =
     (case uploadTable w cfg diskMap backupName schemaOnly table of
        (evs, Return None) \<Rightarrow>
          (case uploadTables w cfg diskMap backupName schemaOnly rest of
             (evs', r) \<Rightarrow> (evs @ evs', r))
      | (evs, r) \<Rightarrow> (evs, r))"

text \<open>
  \<open>Upload\<close> from \<open>GetLocalBackup\<close> on, with both connections open. The slice \<open>t\<close> of table
  titles that the source builds after the loop is never read and is left out.
\<close>

definition uploadConnected ::
  "World \<Rightarrow> Config \<Rightarrow> string \<Rightarrow> string \<Rightarrow> bool \<Rightarrow> event list \<times> error option outcome" where
  "uploadConnected w cfg backupName tablePattern schemaOnly =
     (case getLocalBackup w backupName of
        Some err \<Rightarrow> ([], Return (Some (Err (''can't upload: '' @ Error_msg err))))
      | None \<Rightarrow>
     (let ev1 = Infof (''Upload backup '' @ [CHR 0x27] @ backupName @ [CHR 0x27]) in
      case ch_GetDefaultPath w of
        Inl err \<Rightarrow> ([ev1], Return (Some (ErrUnknownClickhouseDataPath w)))
      | Inr defaulDataPath \<Rightarrow>
     (case ch_GetDisks w of
        Inl err \<Rightarrow> ([ev1], Return (Some err))
      | Inr disks \<Rightarrow>
     (let diskMap = fillDiskMap Map.empty disks;
          metadataPath = path_Join [defaulDataPath, ''backup'', backupName, ''metadata'']
      in case os_Stat w metadataPath of
        Some err \<Rightarrow> ([ev1], Return (Some err))
      | None \<Rightarrow>
     (let tablesForUpload = fst (parseSchemaPattern w metadataPath tablePattern)
      in case uploadTables w cfg diskMap backupName schemaOnly tablesForUpload of
        (evs, Panic m) \<Rightarrow> (ev1 # evs, Panic m)
      | (evs, Return (Some err)) \<Rightarrow> (ev1 # evs, Return (Some err))
      | (evs, Return None) \<Rightarrow>
     (let backupMetadataPath = path_Join [defaulDataPath, ''backup'', backupName, ''metadata.json'']
      in case ioutil_ReadFile w backupMetadataPath of
        Inl err \<Rightarrow> (ev1 # evs, Return (Some err))
      | Inr backupMetadataBody \<Rightarrow>
     (let remoteBackupMetaFile = path_Join [backupName, ''metadata.json''];
          ev2 = PutFile remoteBackupMetaFile backupMetadataBody
      in case bd_PutFile w remoteBackupMetaFile backupMetadataBody of
        Some err \<Rightarrow> (ev1 # evs @ [ev2], Return (Some (Err (''can't upload: '' @ Error_msg err))))
      | None \<Rightarrow>
     (case bd_RemoveOldBackups w of
        Some err \<Rightarrow>
          (ev1 # evs @ [ev2, RemoveOldBackups],
           Return (Some (Err (''can't remove old backups: '' @ Error_msg err))))
      | None \<Rightarrow>
          (ev1 # evs @ [ev2, RemoveOldBackups, Infof ''  Done.''], Return None)))))))))"

text \<open>
  \<open>Upload\<close>: the events in order and how the function ends. Once \<open>ch.Connect()\<close> has
  succeeded, the deferred \<open>ch.Close()\<close> runs when the function returns or panics.
\<close>

definition Upload ::
  "World \<Rightarrow> Config \<Rightarrow> string \<Rightarrow> string \<Rightarrow> string \<Rightarrow> bool \<Rightarrow> event list \<times> error option outcome" where
  "Upload w cfg backupName tablePattern diffFrom schemaOnly =
     (if RemoteStorage cfg = ''none''
      then ([Println (''Upload aborted: RemoteStorage set to '' @ [CHR 0x22] @ ''none'' @ [CHR 0x22])], Return None)
      else if backupName = []
      then ([PrintLocalBackups ''all''], Return (Some (Err ''select backup for upload'')))
      else if diffFrom \<noteq> []
      then ([], Return (Some (Err ''diff-from is not supported yet'')))
      else case ch_Connect w of
        Some err \<Rightarrow>
          ([ClickHouse_Connect],
           Return (Some (Err (''can't connect to clickhouse: '' @ Error_msg err))))
      | None \<Rightarrow>
         (case (case newBackupDestination w of
                  Some err \<Rightarrow> ([NewBackupDestination], Return (Some err))
                | None \<Rightarrow>
                   (case bd_Connect w of
                      Some err \<Rightarrow>
                        ([NewBackupDestination, Destination_Connect],
                         Return (Some (Err (''can't connect to '' @ bd_Kind w @ '': ''
                                            @ Error_msg err))))
                    | None \<Rightarrow>
                       (case uploadConnected w cfg backupName tablePattern schemaOnly of
                          (evs, r) \<Rightarrow> (NewBackupDestination # Destination_Connect # evs, r)))) of
            (evs, r) \<Rightarrow> (ClickHouse_Connect # evs @ [ClickHouse_Close], r)))"

section \<open>Example inputs\<close>

text \<open>A shard determination that knows the tables \<open>a\<close> (not in this replica's shard) and
  \<open>b\<close> (in it) of any database, and no other table.\<close>

definition exampleAssignment :: shardDetermination where
  "exampleAssignment database table =
     (if table = ''a'' then Inr False
      else if table = ''b'' then Inr True
      else Inl (Err ''error determining shard state''))"

text \<open>A cluster where every mode but \<open>none\<close> shards and sharding is supported, and one where it is not.\<close>

definition exampleShardEnv :: "unit ShardEnv" where
  "exampleShardEnv =
     \<lparr>doesShard = (\<lambda>mode. mode \<noteq> ''none''),
      CanShardOperation = None,
      shardFuncByName = (\<lambda>mode. if mode = ''table'' then Inr ()
                                  else Inl (Err ''unknown shard function'')),
      newReplicaDeterminer = (\<lambda>shardFunc. Inr exampleAssignment)\<rparr>"

definition exampleUnsupportedEnv :: "unit ShardEnv" where
  "exampleUnsupportedEnv = exampleShardEnv\<lparr>CanShardOperation := Some errShardOperationUnsupported\<rparr>"

definition exampleBackuper :: "string \<Rightarrow> Backuper" where
  "exampleBackuper mode = \<lparr>ShardedOperationMode = mode, bs = None, DefaultDataPath = ''/var/lib/clickhouse''\<rparr>"

definition exampleTable :: "string \<Rightarrow> bool \<Rightarrow> ShardBackupType \<Rightarrow> Table" where
  "exampleTable name skip backupType =
     \<lparr>Table.Database = ''db'', Table.Name = name, Skip = skip, BackupType = backupType\<rparr>"

text \<open>
  A file tree under \<open>/backup\<close>: part \<open>p1\<close> holds three files, in part \<open>p2\<close> reading the
  directory \<open>sub\<close> fails after the first file, and nothing else exists.
\<close>

definition exampleDir :: FileInfo where
  "exampleDir = \<lparr>IsRegular = False, Size = 4096\<rparr>"

definition exampleFile :: "int64 \<Rightarrow> FileInfo" where
  "exampleFile n = \<lparr>IsRegular = True, Size = n\<rparr>"

definition exampleTree :: filesystem where
  "exampleTree root =
     (if root = ''/backup/p1'' then
        [Visit ''/backup/p1'' exampleDir,
         Visit ''/backup/p1/a.bin'' (exampleFile 4),
         Visit ''/backup/p1/b.bin'' (exampleFile 7),
         Visit ''/backup/p1/c.bin'' (exampleFile 20)]
      else if root = ''/backup/p2'' then
        [Visit ''/backup/p2'' exampleDir,
         Visit ''/backup/p2/d.bin'' (exampleFile 3),
         Failed ''/backup/p2/sub'' (Err ''open /backup/p2/sub: permission denied''),
         Visit ''/backup/p2/e.bin'' (exampleFile 1)]
      else [Failed root (Err (''lstat '' @ root @ '': no such file or directory''))])"

text \<open>A file tree whose part \<open>huge\<close> holds two files of \<open>2^62\<close> bytes each.\<close>

definition hugeTree :: filesystem where
  "hugeTree root =
     (if root = ''/backup/huge'' then
        [Visit ''/backup/huge/x.bin'' (exampleFile 0x4000000000000000),
         Visit ''/backup/huge/y.bin'' (exampleFile 0x4000000000000000)]
      else [Failed root (Err (''lstat '' @ root @ '': no such file or directory''))])"

text \<open>An encrypted disk layered over an S3 disk, a local disk, and an S3 disk whose path is empty.\<close>

definition encryptedDisk :: Disk where
  "encryptedDisk = \<lparr>Disk.Name = ''s3_encrypted'', Disk.Path = ''/var/lib/clickhouse/disks/s3/enc/'',
     Type = ''encrypted'', IsBackup = False\<rparr>"

definition objectDisk :: Disk where
  "objectDisk = \<lparr>Disk.Name = ''s3'', Disk.Path = ''/var/lib/clickhouse/disks/s3/'',
     Type = ''s3'', IsBackup = False\<rparr>"

definition localDisk :: Disk where
  "localDisk = \<lparr>Disk.Name = ''default'', Disk.Path = ''/var/lib/clickhouse/'',
     Type = ''local'', IsBackup = False\<rparr>"

definition emptyPathObjectDisk :: Disk where
  "emptyPathObjectDisk = \<lparr>Disk.Name = ''s3_nopath'', Disk.Path = [], Type = ''s3'', IsBackup = False\<rparr>"

text \<open>
  Remote storage with the backups \<open>full\<close> (one table) and \<open>empty\<close> (no table), and a local
  disk with the manifest of \<open>empty\<close> only.
\<close>

definition exampleTableMetadata :: TableMetadata where
  "exampleTableMetadata = \<lparr>TableMetadata.Table = ''events'', TableMetadata.Database = ''db'',
     UUID = [], Parts = [], Files = Map.empty\<rparr>"

definition exampleBackupList :: "Backup list" where
  "exampleBackupList =
     [\<lparr>BackupMetadata = \<lparr>BackupName = ''full'',
          Tables = [\<lparr>TableTitle.Database = ''db'', TableTitle.Table = ''events''\<rparr>]\<rparr>\<rparr>,
      \<lparr>BackupMetadata = \<lparr>BackupName = ''empty'', Tables = []\<rparr>\<rparr>]"

definition exampleDiffEnv :: DiffEnv where
  "exampleDiffEnv =
     \<lparr>ReadBackupMetadataLocal = (\<lambda>name.
        if name = ''empty'' then Inr \<lparr>BackupName = ''empty'', Tables = []\<rparr>
        else Inl (Err (''open '' @ name @ ''/metadata.json: no such file or directory''))),
      getTableListByPatternLocal = (\<lambda>metadataPath tablePattern dropTable partitions.
        Inr [exampleTableMetadata]),
      BackupList = (\<lambda>parseMetadata name. Inr exampleBackupList),
      getTableListByPatternRemote = (\<lambda>remoteBackupMetadata tablePattern dropTable.
        Inr [exampleTableMetadata])\<rparr>"

text \<open>A world where every call succeeds and nothing is to upload, and two configurations.\<close>

definition exampleWorld :: World where
  "exampleWorld =
     \<lparr>ch_Connect = None, newBackupDestination = None, bd_Connect = None, bd_Kind = ''s3'',
      getLocalBackup = (\<lambda>name. None),
      ch_GetDefaultPath = Inr ''/var/lib/clickhouse'',
      ch_GetDisks = Inr [localDisk],
      os_Stat = (\<lambda>name. None),
      parseSchemaPattern = (\<lambda>metadataPath tablePattern. ([], None)),
      fileTree = exampleTree,
      bd_CompressedStreamUpload = (\<lambda>localPath fileList remotePath. None),
      json_MarshalIndent = (\<lambda>table. Inr ''{}''),
      bd_PutFile = (\<lambda>remotePath content. None),
      ioutil_ReadFile = (\<lambda>name. Inr ''{}''),
      bd_RemoveOldBackups = None,
      TablePathEncode = (\<lambda>name. name),
      ErrUnknownClickhouseDataPath = Err ''clickhouse data path is unknown''\<rparr>"

definition exampleConfig :: "string \<Rightarrow> Config" where
  "exampleConfig remoteStorage =
     \<lparr>RemoteStorage = remoteStorage, MaxFileSize = 10, ArchiveExtension = ''tar''\<rparr>"

text \<open>The key \<open>metadata.TableTitle{Database: t.Database, Table: t.Table}\<close> under which the
  diff resolvers store a table.\<close>

definition titleOf :: "TableMetadata \<Rightarrow> TableTitle" where
  "titleOf t = \<lparr>TableTitle.Database = TableMetadata.Database t,
                 TableTitle.Table = TableMetadata.Table t\<rparr>"

text \<open>The same storage where the local disk holds the manifest of every backup, each with
  the table \<open>db.events\<close>.\<close>

definition exampleLocalDiffEnv :: DiffEnv where
  "exampleLocalDiffEnv = exampleDiffEnv\<lparr>ReadBackupMetadataLocal := (\<lambda>name.
      Inr \<lparr>BackupName = name,
           Tables = [\<lparr>TableTitle.Database = ''db'', TableTitle.Table = ''events''\<rparr>]\<rparr>)\<rparr>"

section \<open>ShardAssigner: properties\<close>

lemma setDefaultBackupType_eq:
  "setDefaultBackupType t =
     t\<lparr>BackupType := (if Skip t then ShardBackupNone else ShardBackupFull)\<rparr>"
  by (simp add: setDefaultBackupType_def Let_def)




text \<open>
  C6. When no sharding policy is configured (\<open>doesShard\<close> is false for the configured mode),
  \<open>populateBackupShardField\<close> returns nil and leaves the Backuper as it is; every table
  keeps its other fields and has BackupType None when it is marked Skip and Full when it
  is not; no table is SchemaOnly.
\<close>

theorem populateBackupShardField_unsharded:
  assumes "\<not> doesShard env (ShardedOperationMode b)"
  shows "\<exists>tables'.
     populateBackupShardField env b tables = (b, tables', None) \<and>
     length tables' = length tables \<and>
     (\<forall>i < length tables.
        tables' ! i = (tables ! i)\<lparr>BackupType :=
           (if Skip (tables ! i) then ShardBackupNone else ShardBackupFull)\<rparr>) \<and>
     (\<forall>t \<in> set tables'. BackupType t \<noteq> ShardBackupSchema)"
  using assms by (auto simp: populateBackupShardField_def setDefaultBackupType_eq)

theorem populateBackupShardField_unsharded_witness:
  "\<not> doesShard exampleShardEnv (ShardedOperationMode (exampleBackuper ''none'')) \<and>
   (\<exists>tables'.
     populateBackupShardField exampleShardEnv (exampleBackuper ''none'')
       [exampleTable ''a'' False ShardBackupSchema, exampleTable ''b'' True ShardBackupSchema]
       = (exampleBackuper ''none'', tables', None) \<and>
     tables' = [exampleTable ''a'' False ShardBackupFull, exampleTable ''b'' True ShardBackupNone])"
proof -
  have h: "\<not> doesShard exampleShardEnv (ShardedOperationMode (exampleBackuper ''none''))"
    by (simp add: exampleShardEnv_def exampleBackuper_def)
  from populateBackupShardField_unsharded [OF h,
      of "[exampleTable ''a'' False ShardBackupSchema, exampleTable ''b'' True ShardBackupSchema]"]
  obtain tables' where
    r: "populateBackupShardField exampleShardEnv (exampleBackuper ''none'')
          [exampleTable ''a'' False ShardBackupSchema, exampleTable ''b'' True ShardBackupSchema]
          = (exampleBackuper ''none'', tables', None)"
    and l: "length tables' = 2"
    and n: "\<forall>i < 2. tables' ! i =
          ([exampleTable ''a'' False ShardBackupSchema, exampleTable ''b'' True ShardBackupSchema] ! i)
            \<lparr>BackupType := (if Skip ([exampleTable ''a'' False ShardBackupSchema,
                 exampleTable ''b'' True ShardBackupSchema] ! i)
               then ShardBackupNone else ShardBackupFull)\<rparr>"
    by auto
  from n have "tables' ! 0 = exampleTable ''a'' False ShardBackupFull"
    and "tables' ! 1 = exampleTable ''b'' True ShardBackupNone"
    by (simp_all add: exampleTable_def)
  with l have "tables' = [exampleTable ''a'' False ShardBackupFull, exampleTable ''b'' True ShardBackupNone]"
    by (auto simp: list_eq_iff_nth_eq less_Suc_eq numeral_2_eq_2)
  with h r show ?thesis by blast
qed

text \<open>
  C3. When a sharding policy is configured and the capability check \<open>CanShardOperation\<close>
  returns an error, \<open>populateBackupShardField\<close> returns that error; the tables hold their
  defaults and none of them is SchemaOnly.
\<close>

theorem populateBackupShardField_capability_error:
  assumes "doesShard env (ShardedOperationMode b)"
    and "CanShardOperation env = Some err"
  shows "\<exists>tables'.
     populateBackupShardField env b tables = (b, tables', Some err) \<and>
     tables' = map setDefaultBackupType tables \<and>
     (\<forall>t \<in> set tables'. BackupType t \<noteq> ShardBackupSchema)"
  using assms by (auto simp: populateBackupShardField_def setDefaultBackupType_eq)

theorem populateBackupShardField_capability_error_witness:
  "doesShard exampleUnsupportedEnv (ShardedOperationMode (exampleBackuper ''table'')) \<and>
   CanShardOperation exampleUnsupportedEnv = Some errShardOperationUnsupported \<and>
   populateBackupShardField exampleUnsupportedEnv (exampleBackuper ''table'')
       [exampleTable ''a'' False ShardBackupSchema, exampleTable ''b'' True ShardBackupSchema]
     = (exampleBackuper ''table'',
        [exampleTable ''a'' False ShardBackupFull, exampleTable ''b'' True ShardBackupNone],
        Some errShardOperationUnsupported)"
proof -
  have h1: "doesShard exampleUnsupportedEnv (ShardedOperationMode (exampleBackuper ''table''))"
    by (simp add: exampleUnsupportedEnv_def exampleShardEnv_def exampleBackuper_def)
  have h2: "CanShardOperation exampleUnsupportedEnv = Some errShardOperationUnsupported"
    by (simp add: exampleUnsupportedEnv_def)
  from populateBackupShardField_capability_error [OF h1 h2,
      of "[exampleTable ''a'' False ShardBackupSchema, exampleTable ''b'' True ShardBackupSchema]"]
  have "populateBackupShardField exampleUnsupportedEnv (exampleBackuper ''table'')
       [exampleTable ''a'' False ShardBackupSchema, exampleTable ''b'' True ShardBackupSchema]
     = (exampleBackuper ''table'',
        map setDefaultBackupType
          [exampleTable ''a'' False ShardBackupSchema, exampleTable ''b'' True ShardBackupSchema],
        Some errShardOperationUnsupported)"
    by auto
  then show ?thesis using h1 h2
    by (simp add: setDefaultBackupType_eq exampleTable_def)
qed



section \<open>PartBatcher: properties\<close>

lemma filepath_Walk_visited:
  "fst (filepath_Walk (walkFn basePath maxSize) calls st) =
     foldl (addFile basePath maxSize) st
       (filter (\<lambda>(filePath, info). IsRegular info) (visited calls))"
proof (induction calls arbitrary: st)
  case Nil
  then show ?case by simp
next
  case (Cons c cs)
  show ?case
  proof (cases c)
    case (Visit filePath info)
    then show ?thesis using Cons.IH by (simp add: addFile_def Let_def)
  next
    case (Failed filePath err)
    then show ?thesis by simp
  qed
qed

lemma partsLoop_walkedFiles:
  "partsLoop fs basePath maxSize parts st =
     foldl (addFile basePath maxSize) st (walkedFiles fs basePath parts)"
proof (induction parts arbitrary: st)
  case Nil
  then show ?case by (simp add: walkedFiles_def)
next
  case (Cons p ps)
  have "partsLoop fs basePath maxSize (p # ps) st =
      partsLoop fs basePath maxSize ps
        (fst (filepath_Walk (walkFn basePath maxSize) (fs (path_Join [basePath, Part.Name p])) st))"
    by (simp add: Let_def split: prod.splits)
  also have "\<dots> = foldl (addFile basePath maxSize)
        (foldl (addFile basePath maxSize) st
           (filter (\<lambda>(filePath, info). IsRegular info)
              (visited (fs (path_Join [basePath, Part.Name p])))))
        (walkedFiles fs basePath ps)"
    by (simp only: Cons.IH filepath_Walk_visited)
  also have "\<dots> = foldl (addFile basePath maxSize) st (walkedFiles fs basePath (p # ps))"
    by (simp add: walkedFiles_def)
  finally show ?case .
qed

lemma walkedFiles_regular: "\<forall>e \<in> set (walkedFiles fs basePath parts). IsRegular (snd e)"
  by (auto simp: walkedFiles_def)

lemma sint_add_no_overflow:
  fixes a b :: int64
  assumes "0 \<le> sint a" "0 \<le> sint b" "sint a + sint b < 2 ^ 63"
  shows "sint (a + b) = sint a + sint b"
proof -
  have "sint (a + b) = signed_take_bit (LENGTH(64) - 1) (sint a + sint b)"
    by (simp add: sint_word_ariths)
  also have "\<dots> = sint a + sint b"
    using assms by (simp add: signed_take_bit_int_eq_self)
  finally show ?thesis .
qed

lemma cumulativeSize_simps [simp]:
  "cumulativeSize [] = 0"
  "cumulativeSize (e # es) = sint (Size (snd e)) + cumulativeSize es"
  "cumulativeSize (xs @ ys) = cumulativeSize xs + cumulativeSize ys"
  by (simp_all add: cumulativeSize_def split: prod.splits)

lemma cumulativeSize_nonneg:
  "\<forall>e \<in> set es. 0 \<le> sint (Size (snd e)) \<Longrightarrow> 0 \<le> cumulativeSize es"
  by (induction es) auto

text \<open>The loop keeps the files in order: what it has closed and what it holds are the
  files seen so far, split into consecutive groups.\<close>

lemma foldl_addFile_structure:
  assumes "\<forall>e \<in> set es. IsRegular (snd e)"
    and "result st = map (map (relativeTo basePath)) gs"
    and "files st = map (relativeTo basePath) cur"
  shows "\<exists>gs' cur'.
     result (foldl (addFile basePath maxSize) st es) = map (map (relativeTo basePath)) gs' \<and>
     files (foldl (addFile basePath maxSize) st es) = map (relativeTo basePath) cur' \<and>
     concat gs' @ cur' = concat gs @ cur @ es"
  using assms
proof (induction es arbitrary: st gs cur)
  case Nil
  then show ?case by auto
next
  case (Cons e es)
  let ?st1 = "addFile basePath maxSize st e"
  have reg: "IsRegular (snd e)" and regs: "\<forall>e \<in> set es. IsRegular (snd e)"
    using Cons.prems(1) by simp_all
  show ?case
  proof (cases "maxSize <s cur_size st + Size (snd e)")
    case True
    then have r: "result ?st1 = map (map (relativeTo basePath)) (gs @ [cur])"
      and f: "files ?st1 = map (relativeTo basePath) [e]"
      using Cons.prems(2,3) reg by (simp_all add: addFile_def Let_def case_prod_beta)
    from Cons.IH [OF regs r f] show ?thesis by simp
  next
    case False
    then have r: "result ?st1 = map (map (relativeTo basePath)) gs"
      and f: "files ?st1 = map (relativeTo basePath) (cur @ [e])"
      using Cons.prems(2,3) reg by (simp_all add: addFile_def Let_def case_prod_beta)
    from Cons.IH [OF regs r f] show ?thesis by simp
  qed
qed

text \<open>When the limit is not negative, no size is negative and the sizes add up below
  \<open>2^63\<close>, the counter \<open>size\<close> is the cumulative size of the files held, and every
  group is within the bound.\<close>

lemma foldl_addFile_bound:
  assumes "\<forall>e \<in> set es. IsRegular (snd e)"
    and "result st = map (map (relativeTo basePath)) gs"
    and "files st = map (relativeTo basePath) cur"
    and "0 \<le> sint maxSize"
    and "\<forall>e \<in> set (cur @ es). 0 \<le> sint (Size (snd e))"
    and "cumulativeSize (cur @ es) < 2 ^ 63"
    and "sint (cur_size st) = cumulativeSize cur"
    and "\<forall>g \<in> set gs. withinBound maxSize g"
    and "withinBound maxSize cur"
  shows "\<exists>gs' cur'.
     result (foldl (addFile basePath maxSize) st es) = map (map (relativeTo basePath)) gs' \<and>
     files (foldl (addFile basePath maxSize) st es) = map (relativeTo basePath) cur' \<and>
     concat gs' @ cur' = concat gs @ cur @ es \<and>
     (\<forall>g \<in> set gs'. withinBound maxSize g) \<and> withinBound maxSize cur'"
  using assms
proof (induction es arbitrary: st gs cur)
  case Nil
  then show ?case by auto
next
  case (Cons e es)
  let ?st1 = "addFile basePath maxSize st e"
  let ?s = "sint (Size (snd e))"
  have reg: "IsRegular (snd e)" and regs: "\<forall>e \<in> set es. IsRegular (snd e)"
    using Cons.prems(1) by simp_all
  have s0: "0 \<le> ?s" and cur0: "0 \<le> cumulativeSize cur" and es0: "0 \<le> cumulativeSize es"
    using Cons.prems(5) by (auto intro: cumulativeSize_nonneg)
  have tot: "cumulativeSize cur + ?s + cumulativeSize es < 2 ^ 63"
    using Cons.prems(6) by simp
  have add: "sint (cur_size st + Size (snd e)) = cumulativeSize cur + ?s"
    using sint_add_no_overflow [of "cur_size st" "Size (snd e)"] Cons.prems(7) s0 cur0 tot es0
    by simp
  show ?case
  proof (cases "maxSize <s cur_size st + Size (snd e)")
    case True
    then have r: "result ?st1 = map (map (relativeTo basePath)) (gs @ [cur])"
      and f: "files ?st1 = map (relativeTo basePath) [e]"
      and sz: "sint (cur_size ?st1) = cumulativeSize [e]"
      using Cons.prems(2,3) reg by (simp_all add: addFile_def Let_def case_prod_beta)
    have p5: "\<forall>x \<in> set ([e] @ es). 0 \<le> sint (Size (snd x))"
      using Cons.prems(5) by simp
    have p6: "cumulativeSize ([e] @ es) < 2 ^ 63"
      using tot cur0 by simp
    have p8: "\<forall>g \<in> set (gs @ [cur]). withinBound maxSize g"
      using Cons.prems(8,9) by simp
    have p9: "withinBound maxSize [e]"
      by (auto simp: withinBound_def)
    from Cons.IH [OF regs r f Cons.prems(4) p5 p6 sz p8 p9] show ?thesis by simp
  next
    case False
    then have r: "result ?st1 = map (map (relativeTo basePath)) gs"
      and f: "files ?st1 = map (relativeTo basePath) (cur @ [e])"
      and sz: "sint (cur_size ?st1) = cumulativeSize (cur @ [e])"
      using Cons.prems(2,3) add reg by (simp_all add: addFile_def Let_def case_prod_beta)
    have p5: "\<forall>x \<in> set ((cur @ [e]) @ es). 0 \<le> sint (Size (snd x))"
      using Cons.prems(5) by simp
    have p6: "cumulativeSize ((cur @ [e]) @ es) < 2 ^ 63"
      using tot by simp
    have p9: "withinBound maxSize (cur @ [e])"
      using False add by (simp add: withinBound_def word_sless_alt)
    from Cons.IH [OF regs r f Cons.prems(4) p5 p6 sz Cons.prems(8) p9] show ?thesis by simp
  qed
qed

lemma separateParts_foldl:
  "fst (separateParts fs basePath parts maxSize) =
     (let st = foldl (addFile basePath maxSize) \<lparr>cur_size = 0, files = [], result = []\<rparr>
                 (walkedFiles fs basePath parts)
      in if files st \<noteq> [] then result st @ [files st] else result st)"
  by (simp add: separateParts_def partsLoop_walkedFiles Let_def)

lemmas separateParts_eval =
  separateParts_def exampleTree_def exampleFile_def exampleDir_def
  path_Join_def path_Clean_def TrimPrefix_def HasPrefix_def word_sless_alt Let_def

lemmas batches_eval =
  separateParts_eval hugeTree_def word_sle_eq walkedFiles_def withinBound_def
  cumulativeSize_def batchesOf_def

text \<open>
  C1, as amended. For every file tree, base path, sequence of parts and limit, the batches
  that \<open>separateParts\<close> returns are the relative paths of the walked file list (the regular
  files that each part's walk visits before its first read error), split into
  consecutive groups: concatenated they are that list in order. When the limit is not
  negative, no walked file has a negative size and the sizes of the walked files add up
  below \<open>2^63\<close>, every group is within the bound: its cumulative size does not exceed the
  limit, or it is a single file that is itself larger than the limit.
\<close>

theorem separateParts_batches:
  "(\<exists>gs. batchesOf fs basePath parts maxSize gs) \<and>
   (0 <=s maxSize \<and>
    (\<forall>e \<in> set (walkedFiles fs basePath parts). 0 <=s Size (snd e)) \<and>
    cumulativeSize (walkedFiles fs basePath parts) < 2 ^ 63 \<longrightarrow>
    (\<exists>gs. batchesOf fs basePath parts maxSize gs \<and> (\<forall>g \<in> set gs. withinBound maxSize g)))"
proof -
  let ?E = "walkedFiles fs basePath parts"
  let ?init = "\<lparr>cur_size = 0, files = [], result = []\<rparr>"
  define st where "st = foldl (addFile basePath maxSize) ?init ?E"
  have sp: "fst (separateParts fs basePath parts maxSize) =
      (if files st \<noteq> [] then result st @ [files st] else result st)"
    by (simp add: separateParts_foldl st_def Let_def)
  have final: "batchesOf fs basePath parts maxSize (if cur' = [] then gs' else gs' @ [cur'])"
    if "result st = map (map (relativeTo basePath)) gs'"
      and "files st = map (relativeTo basePath) cur'"
      and "concat gs' @ cur' = ?E" for gs' cur'
  proof (cases "cur' = []")
    case True
    with that show ?thesis by (simp add: batchesOf_def sp)
  next
    case False
    with that show ?thesis by (simp add: batchesOf_def sp)
  qed
  have first: "\<exists>gs. batchesOf fs basePath parts maxSize gs"
  proof -
    from foldl_addFile_structure [of ?E ?init basePath "[]" "[]" maxSize] walkedFiles_regular
    obtain gs' cur' where "result st = map (map (relativeTo basePath)) gs'"
      and "files st = map (relativeTo basePath) cur'"
      and "concat gs' @ cur' = ?E"
      unfolding st_def by auto
    from final [OF this] show ?thesis ..
  qed
  have second: "\<exists>gs. batchesOf fs basePath parts maxSize gs \<and> (\<forall>g \<in> set gs. withinBound maxSize g)"
    if h: "0 <=s maxSize \<and> (\<forall>e \<in> set ?E. 0 <=s Size (snd e)) \<and> cumulativeSize ?E < 2 ^ 63"
  proof -
    from h have m0: "0 \<le> sint maxSize"
      and e0: "\<forall>e \<in> set ([] @ ?E). 0 \<le> sint (Size (snd e))"
      and tot: "cumulativeSize ([] @ ?E) < 2 ^ 63"
      by (simp_all add: word_sle_eq)
    have w0: "withinBound maxSize []"
      using m0 by (simp add: withinBound_def)
    from foldl_addFile_bound [of ?E ?init basePath "[]" "[]" maxSize,
        OF walkedFiles_regular _ _ m0 e0 tot _ _ w0]
    obtain gs' cur' where r: "result st = map (map (relativeTo basePath)) gs'"
      and f: "files st = map (relativeTo basePath) cur'"
      and c: "concat gs' @ cur' = ?E"
      and b: "\<forall>g \<in> set gs'. withinBound maxSize g" "withinBound maxSize cur'"
      unfolding st_def by auto
    have "\<forall>g \<in> set (if cur' = [] then gs' else gs' @ [cur']). withinBound maxSize g"
      using b by simp
    with final [OF r f c] show ?thesis by blast
  qed
  from first second show ?thesis by blast
qed

theorem separateParts_batches_witness:
  "0 <=s (10 :: int64) \<and>
   list_all (\<lambda>e. 0 <=s Size (snd e))
     (walkedFiles exampleTree ''/backup'' [\<lparr>Part.Name = ''p1''\<rparr>, \<lparr>Part.Name = ''p2''\<rparr>]) \<and>
   cumulativeSize (walkedFiles exampleTree ''/backup'' [\<lparr>Part.Name = ''p1''\<rparr>, \<lparr>Part.Name = ''p2''\<rparr>])
     < 2 ^ 63 \<and>
   separateParts exampleTree ''/backup'' [\<lparr>Part.Name = ''p1''\<rparr>, \<lparr>Part.Name = ''p2''\<rparr>] 10
     = ([[''/p1/a.bin''], [''/p1/b.bin''], [''/p1/c.bin''], [''/p2/d.bin'']], None) \<and>
   (\<exists>gs. batchesOf exampleTree ''/backup'' [\<lparr>Part.Name = ''p1''\<rparr>, \<lparr>Part.Name = ''p2''\<rparr>] 10 gs \<and>
         (\<forall>g \<in> set gs. withinBound 10 g))"
proof -
  have h1: "0 <=s (10 :: int64)"
    by (simp add: word_sle_eq)
  have h2: "list_all (\<lambda>e. 0 <=s Size (snd e))
     (walkedFiles exampleTree ''/backup'' [\<lparr>Part.Name = ''p1''\<rparr>, \<lparr>Part.Name = ''p2''\<rparr>])"
    by (simp add: batches_eval)
  have h3: "cumulativeSize
       (walkedFiles exampleTree ''/backup'' [\<lparr>Part.Name = ''p1''\<rparr>, \<lparr>Part.Name = ''p2''\<rparr>])
     < 2 ^ 63"
    by (simp add: batches_eval)
  have v: "separateParts exampleTree ''/backup'' [\<lparr>Part.Name = ''p1''\<rparr>, \<lparr>Part.Name = ''p2''\<rparr>] 10
     = ([[''/p1/a.bin''], [''/p1/b.bin''], [''/p1/c.bin''], [''/p2/d.bin'']], None)"
    by (simp add: batches_eval)
  from h2 have h2': "\<forall>e \<in> set (walkedFiles exampleTree ''/backup''
      [\<lparr>Part.Name = ''p1''\<rparr>, \<lparr>Part.Name = ''p2''\<rparr>]). 0 <=s Size (snd e)"
    by (simp only: list_all_iff)
  from separateParts_batches [of exampleTree "''/backup''"
      "[\<lparr>Part.Name = ''p1''\<rparr>, \<lparr>Part.Name = ''p2''\<rparr>]" 10] h1 h2' h3
  have "\<exists>gs. batchesOf exampleTree ''/backup'' [\<lparr>Part.Name = ''p1''\<rparr>, \<lparr>Part.Name = ''p2''\<rparr>] 10 gs \<and>
         (\<forall>g \<in> set gs. withinBound 10 g)"
    by blast
  with h1 h2 h3 v show ?thesis by blast
qed

text \<open>
  C1 as stated fails for a negative limit and when the sizes overflow \<open>int64\<close>. With the
  limit \<open>-1\<close> the first batch returned is empty: its cumulative size \<open>0\<close> exceeds the
  limit and it is not a single file. With the limit \<open>2^63 - 1\<close> and two files of \<open>2^62\<close>
  bytes the sum wraps to a negative number, both files go into one batch, and its
  cumulative size \<open>2^63\<close> exceeds the limit.
\<close>

theorem separateParts_bound_counterexample:
  "separateParts exampleTree ''/backup'' [\<lparr>Part.Name = ''p1''\<rparr>] (- 1)
     = ([[], [''/p1/a.bin''], [''/p1/b.bin''], [''/p1/c.bin'']], None) \<and>
   batchesOf exampleTree ''/backup'' [\<lparr>Part.Name = ''p1''\<rparr>] (- 1)
     [[], [(''/backup/p1/a.bin'', exampleFile 4)], [(''/backup/p1/b.bin'', exampleFile 7)],
      [(''/backup/p1/c.bin'', exampleFile 20)]] \<and>
   \<not> withinBound (- 1) [] \<and>
   separateParts hugeTree ''/backup'' [\<lparr>Part.Name = ''huge''\<rparr>] 0x7FFFFFFFFFFFFFFF
     = ([[''/huge/x.bin'', ''/huge/y.bin'']], None) \<and>
   batchesOf hugeTree ''/backup'' [\<lparr>Part.Name = ''huge''\<rparr>] 0x7FFFFFFFFFFFFFFF
     [[(''/backup/huge/x.bin'', exampleFile 0x4000000000000000),
       (''/backup/huge/y.bin'', exampleFile 0x4000000000000000)]] \<and>
   \<not> withinBound 0x7FFFFFFFFFFFFFFF
     [(''/backup/huge/x.bin'', exampleFile 0x4000000000000000),
      (''/backup/huge/y.bin'', exampleFile 0x4000000000000000)]"
  by (simp add: batches_eval)

text \<open>
  C5. \<open>separateParts\<close> never returns an error: what \<open>filepath.Walk\<close> returns is dropped.
  In the example tree reading \<open>/backup/p2/sub\<close> fails and \<open>/backup/p3\<close> does not exist;
  the function returns the batches of the files walked before each failure and a nil
  error.
\<close>

theorem separateParts_drops_walk_error:
  "snd (separateParts fs basePath parts maxSize) = None \<and>
   separateParts exampleTree ''/backup''
       [\<lparr>Part.Name = ''p1''\<rparr>, \<lparr>Part.Name = ''p2''\<rparr>, \<lparr>Part.Name = ''p3''\<rparr>] 10
     = ([[''/p1/a.bin''], [''/p1/b.bin''], [''/p1/c.bin''], [''/p2/d.bin'']], None) \<and>
   filepath_Walk (walkFn ''/backup'' 10) (exampleTree ''/backup/p3'')
       \<lparr>cur_size = 0, files = [], result = []\<rparr>
     = (\<lparr>cur_size = 0, files = [], result = []\<rparr>,
        Some (Err ''lstat /backup/p3: no such file or directory''))"
  by (simp add: separateParts_eval)

section \<open>DestinationLocator: properties\<close>

text \<open>
  C4. For the S3 configuration with an empty endpoint, region \<open>us-east-1\<close>, bucket
  \<open>mybucket\<close>, force-path-style false and object-disk sub-path \<open>backups\<close>,
  \<open>buildEmbeddedLocationS3\<close> returns the string of a URL whose host is
  \<open>mybucket.s3.us-east-1.amazonaws.com\<close> and whose path is \<open>backups\<close>; its scheme is
  \<open>https\<close>, or \<open>http\<close> when SSL is disabled, and its other fields are empty.
\<close>

theorem buildEmbeddedLocationS3_virtual_host:
  "embeddedLocationS3URL URL_Parse
     \<lparr>Endpoint = [], Bucket = ''mybucket'', ObjectDiskPath = ''backups'', DisableSSL = ssl_off,
      Region = ''us-east-1'', ForcePathStyle = False\<rparr>
     = Return (zeroURL\<lparr>Scheme := (if ssl_off then ''http'' else ''https''),
                       Host := ''mybucket.s3.us-east-1.amazonaws.com'',
                       URL.Path := ''backups''\<rparr>) \<and>
   buildEmbeddedLocationS3 URL_Parse URL_String
     \<lparr>Endpoint = [], Bucket = ''mybucket'', ObjectDiskPath = ''backups'', DisableSSL = ssl_off,
      Region = ''us-east-1'', ForcePathStyle = False\<rparr>
     = Return (URL_String (zeroURL\<lparr>Scheme := (if ssl_off then ''http'' else ''https''),
                       Host := ''mybucket.s3.us-east-1.amazonaws.com'',
                       URL.Path := ''backups''\<rparr>))"
  by (simp add: buildEmbeddedLocationS3_def embeddedLocationS3URL_def HasPrefix_def zeroURL_def
      Let_def)

section \<open>DiskClassifier: properties\<close>

lemma underlyingLoop_found:
  "0 \<le> fst (underlyingLoop disk i disks (idx, p)) \<longleftrightarrow>
     0 \<le> idx \<or>
     (\<exists>d \<in> set disks. Disk.Name d \<noteq> Disk.Name disk \<and> HasPrefix (Disk.Path disk) (Disk.Path d)
        \<and> isDiskTypeObject (Type d) \<and> p < Disk.Path d)"
proof (induction disks arbitrary: i idx p)
  case Nil
  then show ?case by simp
next
  case (Cons d ds)
  let ?m = "\<lambda>d. Disk.Name d \<noteq> Disk.Name disk \<and> HasPrefix (Disk.Path disk) (Disk.Path d)
      \<and> isDiskTypeObject (Type d)"
  show ?case
  proof (cases "?m d \<and> p < Disk.Path d")
    case True
    then have "underlyingLoop disk i (d # ds) (idx, p)
        = underlyingLoop disk (Suc i) ds (int i, Disk.Path d)"
      by simp
    then have "0 \<le> fst (underlyingLoop disk i (d # ds) (idx, p))"
      using Cons.IH [of "Suc i" "int i" "Disk.Path d"] by simp
    moreover have "\<exists>d' \<in> set (d # ds). ?m d' \<and> p < Disk.Path d'"
      using True by (intro bexI [of _ d]) simp_all
    ultimately show ?thesis by blast
  next
    case False
    then have "underlyingLoop disk i (d # ds) (idx, p) = underlyingLoop disk (Suc i) ds (idx, p)"
      by auto
    moreover have "(\<exists>d' \<in> set (d # ds). ?m d' \<and> p < Disk.Path d')
        \<longleftrightarrow> (\<exists>d' \<in> set ds. ?m d' \<and> p < Disk.Path d')"
      using False by (simp only: list.set bex_simps) blast
    ultimately show ?thesis using Cons.IH [of "Suc i" idx p] by (simp only: conj_assoc)
  qed
qed

text \<open>
  C9, as amended. \<open>isDiskTypeEncryptedObject\<close> returns true if and only if the disk's Type
  is \<open>encrypted\<close> and the list holds a disk of another name whose Path is not empty and is
  a prefix of the encrypted disk's Path, and whose Type is \<open>s3\<close>, \<open>azure_blob_storage\<close> or
  \<open>azure\<close>. Which of several such disks has the greatest path does not matter.
\<close>

theorem isDiskTypeEncryptedObject_iff:
  "isDiskTypeEncryptedObject disk disks \<longleftrightarrow>
     Type disk = ''encrypted'' \<and>
     (\<exists>d \<in> set disks. Disk.Name d \<noteq> Disk.Name disk \<and> Disk.Path d \<noteq> [] \<and>
        HasPrefix (Disk.Path disk) (Disk.Path d) \<and>
        (Type d = ''s3'' \<or> Type d = ''azure_blob_storage'' \<or> Type d = ''azure''))"
proof -
  have e: "[] < q \<longleftrightarrow> q \<noteq> []" for q :: string
    by (cases q) simp_all
  have "isDiskTypeEncryptedObject disk disks \<longleftrightarrow>
      Type disk = ''encrypted'' \<and> 0 \<le> fst (underlyingLoop disk 0 disks (- 1, []))"
    by (simp add: isDiskTypeEncryptedObject_def split: prod.splits)
  also have "\<dots> \<longleftrightarrow> Type disk = ''encrypted'' \<and>
      (\<exists>d \<in> set disks. Disk.Name d \<noteq> Disk.Name disk \<and> HasPrefix (Disk.Path disk) (Disk.Path d)
        \<and> isDiskTypeObject (Type d) \<and> Disk.Path d \<noteq> [])"
    by (simp only: underlyingLoop_found e) simp
  also have "\<dots> \<longleftrightarrow> Type disk = ''encrypted'' \<and>
     (\<exists>d \<in> set disks. Disk.Name d \<noteq> Disk.Name disk \<and> Disk.Path d \<noteq> [] \<and>
        HasPrefix (Disk.Path disk) (Disk.Path d) \<and>
        (Type d = ''s3'' \<or> Type d = ''azure_blob_storage'' \<or> Type d = ''azure''))"
    unfolding isDiskTypeObject_def by blast
  finally show ?thesis .
qed

theorem isDiskTypeEncryptedObject_iff_witness:
  "isDiskTypeEncryptedObject encryptedDisk [localDisk, objectDisk] \<and>
   \<not> isDiskTypeEncryptedObject encryptedDisk [localDisk, encryptedDisk] \<and>
   \<not> isDiskTypeEncryptedObject objectDisk [localDisk, objectDisk, encryptedDisk]"
proof -
  have "objectDisk \<in> set [localDisk, objectDisk]"
    and "Disk.Name objectDisk \<noteq> Disk.Name encryptedDisk"
    and "Disk.Path objectDisk \<noteq> []"
    and "HasPrefix (Disk.Path encryptedDisk) (Disk.Path objectDisk)"
    and "Type objectDisk = ''s3''"
    and "Type encryptedDisk = ''encrypted''"
    by (simp_all add: objectDisk_def encryptedDisk_def HasPrefix_def)
  then have 1: "isDiskTypeEncryptedObject encryptedDisk [localDisk, objectDisk]"
    unfolding isDiskTypeEncryptedObject_iff [of encryptedDisk "[localDisk, objectDisk]"]
    by blast
  have 2: "\<not> isDiskTypeEncryptedObject encryptedDisk [localDisk, encryptedDisk]"
    unfolding isDiskTypeEncryptedObject_iff [of encryptedDisk "[localDisk, encryptedDisk]"]
    by (simp add: localDisk_def encryptedDisk_def)
  have 3: "\<not> isDiskTypeEncryptedObject objectDisk [localDisk, objectDisk, encryptedDisk]"
    unfolding isDiskTypeEncryptedObject_iff [of objectDisk "[localDisk, objectDisk, encryptedDisk]"]
    by (simp add: objectDisk_def)
  from 1 2 3 show ?thesis by blast
qed

text \<open>
  C9 as stated fails when the only underlying object disk has an empty Path: the empty
  string is a prefix of every path, but it is not greater than the initial
  \<open>underlyingPath\<close>, so no index is recorded and the function returns false.
\<close>

theorem isDiskTypeEncryptedObject_empty_path_counterexample:
  "\<not> isDiskTypeEncryptedObject encryptedDisk [emptyPathObjectDisk] \<and>
   Type encryptedDisk = ''encrypted'' \<and>
   emptyPathObjectDisk \<in> set [emptyPathObjectDisk] \<and>
   Disk.Name emptyPathObjectDisk \<noteq> Disk.Name encryptedDisk \<and>
   HasPrefix (Disk.Path encryptedDisk) (Disk.Path emptyPathObjectDisk) \<and>
   Type emptyPathObjectDisk = ''s3''"
  by (simp add: isDiskTypeEncryptedObject_def isDiskTypeObject_def HasPrefix_def
      encryptedDisk_def emptyPathObjectDisk_def)

section \<open>DiffResolver: properties\<close>

lemma findDiffRemoteMetadata_find:
  "findDiffRemoteMetadata name backupList =
     map_option BackupMetadata
       (find (\<lambda>backup. BackupName (BackupMetadata backup) = name) backupList)"
  by (induction backupList) simp_all

lemma findDiffRemoteMetadata_None:
  "findDiffRemoteMetadata name backupList = None \<longleftrightarrow>
     (\<forall>backup \<in> set backupList. BackupName (BackupMetadata backup) \<noteq> name)"
  by (induction backupList) simp_all

text \<open>
  C2. If the remote listing succeeds and holds no backup whose name equals the requested
  diff-from name, \<open>getTablesDiffFromRemote\<close> returns the error
  \<open><name> not found on remote storage\<close>; in particular it does not return a diff map,
  empty or not.
\<close>

theorem getTablesDiffFromRemote_not_found:
  assumes "BackupList env True diffFromRemote = Inr backupList"
    and "\<forall>backup \<in> set backupList. BackupName (BackupMetadata backup) \<noteq> diffFromRemote"
  shows "getTablesDiffFromRemote env b diffFromRemote tablePattern
       = Inl (Err (diffFromRemote @ '' not found on remote storage'')) \<and>
     getTablesDiffFromRemote env b diffFromRemote tablePattern \<noteq> Inr Map.empty"
  using assms
  by (simp add: getTablesDiffFromRemote_def findDiffRemoteMetadata_None [symmetric])

theorem getTablesDiffFromRemote_not_found_witness:
  "BackupList exampleDiffEnv True ''missing'' = Inr exampleBackupList \<and>
   list_all (\<lambda>backup. BackupName (BackupMetadata backup) \<noteq> ''missing'') exampleBackupList \<and>
   getTablesDiffFromRemote exampleDiffEnv (exampleBackuper ''none'') ''missing'' ''*''
     = Inl (Err ''missing not found on remote storage'')"
proof -
  have h1: "BackupList exampleDiffEnv True ''missing'' = Inr exampleBackupList"
    by (simp add: exampleDiffEnv_def)
  have h2: "list_all (\<lambda>backup. BackupName (BackupMetadata backup) \<noteq> ''missing'') exampleBackupList"
    by (simp add: exampleBackupList_def)
  then have h2': "\<forall>backup \<in> set exampleBackupList. BackupName (BackupMetadata backup) \<noteq> ''missing''"
    by (simp only: list_all_iff)
  from getTablesDiffFromRemote_not_found [OF h1 h2', of "exampleBackuper ''none''" "''*''"] h1 h2
  show ?thesis by simp
qed

text \<open>
  C7. For both diff variants, when the reference backup's manifest exists and lists zero
  tables, the result is the empty map and a nil error: locally when
  \<open>ReadBackupMetadataLocal\<close> returns such a manifest, remotely when the first backup of that
  name in the listing is such a manifest. When the reference is not found (the local
  read fails, the listing holds no backup of that name) the result is an error.
\<close>

theorem getTablesDiff_zero_tables:
  "(ReadBackupMetadataLocal env diffFrom = Inr diffFromBackup \<and> Tables diffFromBackup = [] \<longrightarrow>
      getTablesDiffFromLocal env b diffFrom tablePattern = Inr Map.empty) \<and>
   (BackupList env True diffFrom = Inr backupList \<and>
    find (\<lambda>backup. BackupName (BackupMetadata backup) = diffFrom) backupList = Some backup \<and>
    Tables (BackupMetadata backup) = [] \<longrightarrow>
      getTablesDiffFromRemote env b diffFrom tablePattern = Inr Map.empty) \<and>
   (ReadBackupMetadataLocal env diffFrom = Inl err \<longrightarrow>
      getTablesDiffFromLocal env b diffFrom tablePattern = Inl err) \<and>
   (BackupList env True diffFrom = Inr backupList \<and>
    find (\<lambda>backup. BackupName (BackupMetadata backup) = diffFrom) backupList = None \<longrightarrow>
      getTablesDiffFromRemote env b diffFrom tablePattern
        = Inl (Err (diffFrom @ '' not found on remote storage'')))"
  by (simp add: getTablesDiffFromLocal_def getTablesDiffFromRemote_def findDiffRemoteMetadata_find)

theorem getTablesDiff_zero_tables_witness:
  "ReadBackupMetadataLocal exampleDiffEnv ''empty'' = Inr \<lparr>BackupName = ''empty'', Tables = []\<rparr> \<and>
   getTablesDiffFromLocal exampleDiffEnv (exampleBackuper ''none'') ''empty'' ''*'' = Inr Map.empty \<and>
   BackupList exampleDiffEnv True ''empty'' = Inr exampleBackupList \<and>
   find (\<lambda>backup. BackupName (BackupMetadata backup) = ''empty'') exampleBackupList
     = Some \<lparr>BackupMetadata = \<lparr>BackupName = ''empty'', Tables = []\<rparr>\<rparr> \<and>
   getTablesDiffFromRemote exampleDiffEnv (exampleBackuper ''none'') ''empty'' ''*'' = Inr Map.empty \<and>
   getTablesDiffFromLocal exampleDiffEnv (exampleBackuper ''none'') ''missing'' ''*''
     = Inl (Err ''open missing/metadata.json: no such file or directory'') \<and>
   getTablesDiffFromRemote exampleDiffEnv (exampleBackuper ''none'') ''missing'' ''*''
     = Inl (Err ''missing not found on remote storage'')"
proof -
  have h1: "ReadBackupMetadataLocal exampleDiffEnv ''empty'' = Inr \<lparr>BackupName = ''empty'', Tables = []\<rparr>"
    and h2: "BackupList exampleDiffEnv True ''empty'' = Inr exampleBackupList"
    and h3: "find (\<lambda>backup. BackupName (BackupMetadata backup) = ''empty'') exampleBackupList
       = Some \<lparr>BackupMetadata = \<lparr>BackupName = ''empty'', Tables = []\<rparr>\<rparr>"
    and h4: "ReadBackupMetadataLocal exampleDiffEnv ''missing''
       = Inl (Err ''open missing/metadata.json: no such file or directory'')"
    and h5: "BackupList exampleDiffEnv True ''missing'' = Inr exampleBackupList"
    and h6: "find (\<lambda>backup. BackupName (BackupMetadata backup) = ''missing'') exampleBackupList = None"
    by (simp_all add: exampleDiffEnv_def exampleBackupList_def)
  from getTablesDiff_zero_tables [of exampleDiffEnv "''empty''" "\<lparr>BackupName = ''empty'', Tables = []\<rparr>"
      "exampleBackuper ''none''" "''*''" exampleBackupList
      "\<lparr>BackupMetadata = \<lparr>BackupName = ''empty'', Tables = []\<rparr>\<rparr>"] h1 h2 h3
  have a: "getTablesDiffFromLocal exampleDiffEnv (exampleBackuper ''none'') ''empty'' ''*'' = Inr Map.empty"
    and b: "getTablesDiffFromRemote exampleDiffEnv (exampleBackuper ''none'') ''empty'' ''*'' = Inr Map.empty"
    by simp_all
  from getTablesDiff_zero_tables [of exampleDiffEnv "''missing''" _
      "exampleBackuper ''none''" "''*''" exampleBackupList _
      "Err ''open missing/metadata.json: no such file or directory''"] h4 h5 h6
  have c: "getTablesDiffFromLocal exampleDiffEnv (exampleBackuper ''none'') ''missing'' ''*''
       = Inl (Err ''open missing/metadata.json: no such file or directory'')"
    and d: "getTablesDiffFromRemote exampleDiffEnv (exampleBackuper ''none'') ''missing'' ''*''
       = Inl (Err ''missing not found on remote storage'')"
    by simp_all
  from h1 h2 h3 a b c d show ?thesis by blast
qed

section \<open>The upload pathway: properties\<close>

lemma fillTablesForUploadFromDiff_Cons:
  "fillTablesForUploadFromDiff m (t # ts) = fillTablesForUploadFromDiff (m(titleOf t \<mapsto> t)) ts"
  by (simp add: titleOf_def)

lemma fillTablesForUploadFromDiff_other:
  "k \<notin> titleOf ` set ts \<Longrightarrow> fillTablesForUploadFromDiff m ts k = m k"
  by (induction ts arbitrary: m) (simp_all add: titleOf_def)

lemma fillTablesForUploadFromDiff_dom:
  "dom (fillTablesForUploadFromDiff m ts) = dom m \<union> titleOf ` set ts"
  by (induction ts arbitrary: m) (auto simp: titleOf_def)

lemma fillTablesForUploadFromDiff_stored:
  "t \<in> set ts \<Longrightarrow>
     \<exists>t' \<in> set ts. fillTablesForUploadFromDiff m ts (titleOf t) = Some t' \<and> titleOf t' = titleOf t"
proof (induction ts arbitrary: m t)
  case Nil
  then show ?case by simp
next
  case (Cons x ts)
  show ?case
  proof (cases "titleOf t \<in> titleOf ` set ts")
    case True
    then obtain u where u: "u \<in> set ts" "titleOf u = titleOf t"
      by auto
    from Cons.IH [OF u(1), of "m(titleOf x \<mapsto> x)"]
    obtain t' where t': "t' \<in> set ts"
      "fillTablesForUploadFromDiff (m(titleOf x \<mapsto> x)) ts (titleOf t) = Some t'"
      "titleOf t' = titleOf t"
      unfolding u(2) by blast
    have "fillTablesForUploadFromDiff m (x # ts) (titleOf t) = Some t'"
      using t'(2) by (simp only: fillTablesForUploadFromDiff_Cons)
    with t'(1,3) show ?thesis
      by (intro bexI [of _ t']) simp_all
  next
    case False
    with Cons.prems have tx: "t = x"
      by auto
    have "fillTablesForUploadFromDiff m (x # ts) (titleOf t) = Some x"
      using fillTablesForUploadFromDiff_other [OF False, of "m(titleOf x \<mapsto> x)"] tx
      by (simp add: fillTablesForUploadFromDiff_Cons del: fillTablesForUploadFromDiff.simps)
    with tx show ?thesis by simp
  qed
qed

text \<open>
  C8, as amended. For every non-empty \<open>diffFrom\<close>, when the remote storage is not \<open>none\<close>
  and the backup name is not empty, \<open>Upload\<close> of the pathway with \<open>separateParts\<close> returns
  the error \<open>diff-from is not supported yet\<close> with no event at all: it has made no call
  that connects to the database or to remote storage and has uploaded nothing. Diff-from
  is supported by the other pathway's resolvers: for a reference backup that is found and
  lists tables, \<open>getTablesDiffFromLocal\<close> (the manifest read locally) and
  \<open>getTablesDiffFromRemote\<close> (the first backup of that name in the remote listing) return
  a map whose keys are the titles of the enumerated tables, each key holding an
  enumerated table of that title.
\<close>

theorem Upload_diffFrom_not_supported:
  "(diffFrom \<noteq> [] \<and> RemoteStorage cfg \<noteq> ''none'' \<and> backupName \<noteq> [] \<longrightarrow>
      Upload w cfg backupName tablePattern diffFrom schemaOnly
        = ([], Return (Some (Err ''diff-from is not supported yet'')))) \<and>
   (ReadBackupMetadataLocal env diffFrom = Inr diffFromBackup \<and> Tables diffFromBackup \<noteq> [] \<and>
    getTableListByPatternLocal env
      (path_Join [DefaultDataPath b, ''backup'', diffFrom, ''metadata'']) tablePattern False []
      = Inr diffTablesList \<longrightarrow>
      (\<exists>d. getTablesDiffFromLocal env b diffFrom tablePattern = Inr d \<and>
           dom d = titleOf ` set diffTablesList \<and>
           (\<forall>t \<in> set diffTablesList.
              \<exists>t' \<in> set diffTablesList. d (titleOf t) = Some t' \<and> titleOf t' = titleOf t))) \<and>
   (BackupList env True diffFrom = Inr backupList \<and>
    find (\<lambda>backup. BackupName (BackupMetadata backup) = diffFrom) backupList = Some backup \<and>
    Tables (BackupMetadata backup) \<noteq> [] \<and>
    getTableListByPatternRemote env (BackupMetadata backup) tablePattern False
      = Inr remoteTablesList \<longrightarrow>
      (\<exists>d. getTablesDiffFromRemote env b diffFrom tablePattern = Inr d \<and>
           dom d = titleOf ` set remoteTablesList \<and>
           (\<forall>t \<in> set remoteTablesList.
              \<exists>t' \<in> set remoteTablesList. d (titleOf t) = Some t' \<and> titleOf t' = titleOf t)))"
proof (intro conjI impI)
  assume "diffFrom \<noteq> [] \<and> RemoteStorage cfg \<noteq> ''none'' \<and> backupName \<noteq> []"
  then show "Upload w cfg backupName tablePattern diffFrom schemaOnly
        = ([], Return (Some (Err ''diff-from is not supported yet'')))"
    by (simp add: Upload_def)
next
  assume "ReadBackupMetadataLocal env diffFrom = Inr diffFromBackup \<and> Tables diffFromBackup \<noteq> [] \<and>
    getTableListByPatternLocal env
      (path_Join [DefaultDataPath b, ''backup'', diffFrom, ''metadata'']) tablePattern False []
      = Inr diffTablesList"
  then have "getTablesDiffFromLocal env b diffFrom tablePattern
      = Inr (fillTablesForUploadFromDiff Map.empty diffTablesList)"
    by (simp add: getTablesDiffFromLocal_def Let_def)
  then show "\<exists>d. getTablesDiffFromLocal env b diffFrom tablePattern = Inr d \<and>
           dom d = titleOf ` set diffTablesList \<and>
           (\<forall>t \<in> set diffTablesList.
              \<exists>t' \<in> set diffTablesList. d (titleOf t) = Some t' \<and> titleOf t' = titleOf t)"
    using fillTablesForUploadFromDiff_stored [of _ diffTablesList Map.empty]
    by (simp add: fillTablesForUploadFromDiff_dom)
next
  assume "BackupList env True diffFrom = Inr backupList \<and>
    find (\<lambda>backup. BackupName (BackupMetadata backup) = diffFrom) backupList = Some backup \<and>
    Tables (BackupMetadata backup) \<noteq> [] \<and>
    getTableListByPatternRemote env (BackupMetadata backup) tablePattern False
      = Inr remoteTablesList"
  then have "getTablesDiffFromRemote env b diffFrom tablePattern
      = Inr (fillTablesForUploadFromDiff Map.empty remoteTablesList)"
    by (simp add: getTablesDiffFromRemote_def findDiffRemoteMetadata_find Let_def)
  then show "\<exists>d. getTablesDiffFromRemote env b diffFrom tablePattern = Inr d \<and>
           dom d = titleOf ` set remoteTablesList \<and>
           (\<forall>t \<in> set remoteTablesList.
              \<exists>t' \<in> set remoteTablesList. d (titleOf t) = Some t' \<and> titleOf t' = titleOf t)"
    using fillTablesForUploadFromDiff_stored [of _ remoteTablesList Map.empty]
    by (simp add: fillTablesForUploadFromDiff_dom)
qed

lemmas Upload_eval =
  Upload_def uploadConnected_def exampleWorld_def exampleConfig_def localDisk_def
  path_Join_def path_Clean_def Let_def

theorem Upload_diffFrom_not_supported_witness:
  "''backup0'' \<noteq> [] \<and>
   RemoteStorage (exampleConfig ''s3'') \<noteq> ''none'' \<and> ''backup1'' \<noteq> [] \<and>
   Upload exampleWorld (exampleConfig ''s3'') ''backup1'' ''*'' ''backup0'' False
     = ([], Return (Some (Err ''diff-from is not supported yet''))) \<and>
   Upload exampleWorld (exampleConfig ''s3'') ''backup1'' ''*'' [] False
     = ([ClickHouse_Connect, NewBackupDestination, Destination_Connect,
         Infof (''Upload backup '' @ [CHR 0x27] @ ''backup1'' @ [CHR 0x27]),
         PutFile ''backup1/metadata.json'' ''{}'', RemoveOldBackups, Infof ''  Done.'',
         ClickHouse_Close],
        Return None) \<and>
   (\<exists>d. getTablesDiffFromLocal exampleLocalDiffEnv (exampleBackuper ''none'') ''backup0'' ''*'' = Inr d \<and>
        dom d = {\<lparr>TableTitle.Database = ''db'', TableTitle.Table = ''events''\<rparr>} \<and>
        d \<lparr>TableTitle.Database = ''db'', TableTitle.Table = ''events''\<rparr> = Some exampleTableMetadata) \<and>
   (\<exists>d. getTablesDiffFromRemote exampleDiffEnv (exampleBackuper ''none'') ''full'' ''*'' = Inr d \<and>
        dom d = {\<lparr>TableTitle.Database = ''db'', TableTitle.Table = ''events''\<rparr>} \<and>
        d \<lparr>TableTitle.Database = ''db'', TableTitle.Table = ''events''\<rparr> = Some exampleTableMetadata)"
proof -
  let ?title = "\<lparr>TableTitle.Database = ''db'', TableTitle.Table = ''events''\<rparr>"
  let ?full = "\<lparr>BackupMetadata = \<lparr>BackupName = ''full'', Tables = [?title]\<rparr>\<rparr>"
  have h: "''backup0'' \<noteq> [] \<and> RemoteStorage (exampleConfig ''s3'') \<noteq> ''none'' \<and> ''backup1'' \<noteq> []"
    by (simp add: exampleConfig_def)
  have v: "Upload exampleWorld (exampleConfig ''s3'') ''backup1'' ''*'' [] False
     = ([ClickHouse_Connect, NewBackupDestination, Destination_Connect,
         Infof (''Upload backup '' @ [CHR 0x27] @ ''backup1'' @ [CHR 0x27]),
         PutFile ''backup1/metadata.json'' ''{}'', RemoveOldBackups, Infof ''  Done.'',
         ClickHouse_Close],
        Return None)"
    by (simp add: Upload_eval)
  have l: "ReadBackupMetadataLocal exampleLocalDiffEnv ''backup0''
       = Inr \<lparr>BackupName = ''backup0'', Tables = [?title]\<rparr> \<and>
     Tables \<lparr>BackupName = ''backup0'', Tables = [?title]\<rparr> \<noteq> [] \<and>
     getTableListByPatternLocal exampleLocalDiffEnv
       (path_Join [DefaultDataPath (exampleBackuper ''none''), ''backup'', ''backup0'', ''metadata''])
       ''*'' False [] = Inr [exampleTableMetadata]"
    by (simp add: exampleLocalDiffEnv_def exampleDiffEnv_def)
  have r: "BackupList exampleDiffEnv True ''full'' = Inr exampleBackupList \<and>
     find (\<lambda>backup. BackupName (BackupMetadata backup) = ''full'') exampleBackupList = Some ?full \<and>
     Tables (BackupMetadata ?full) \<noteq> [] \<and>
     getTableListByPatternRemote exampleDiffEnv (BackupMetadata ?full) ''*'' False
       = Inr [exampleTableMetadata]"
    by (simp add: exampleDiffEnv_def exampleBackupList_def)
  have t: "titleOf exampleTableMetadata = ?title"
    by (simp add: titleOf_def exampleTableMetadata_def)
  note inst = Upload_diffFrom_not_supported [of "''backup0''" "exampleConfig ''s3''" "''backup1''"
      exampleWorld "''*''" False exampleLocalDiffEnv "\<lparr>BackupName = ''backup0'', Tables = [?title]\<rparr>"
      "exampleBackuper ''none''" "[exampleTableMetadata]"]
  from inst h
  have r1: "Upload exampleWorld (exampleConfig ''s3'') ''backup1'' ''*'' ''backup0'' False
     = ([], Return (Some (Err ''diff-from is not supported yet'')))"
    by blast
  from inst l t
  have r2: "\<exists>d. getTablesDiffFromLocal exampleLocalDiffEnv (exampleBackuper ''none'') ''backup0'' ''*'' = Inr d \<and>
        dom d = {?title} \<and> d ?title = Some exampleTableMetadata"
    by auto
  from Upload_diffFrom_not_supported [of "''full''" _ _ _ "''*''" _ exampleDiffEnv _
      "exampleBackuper ''none''" _ exampleBackupList ?full "[exampleTableMetadata]"] r t
  have r3: "\<exists>d. getTablesDiffFromRemote exampleDiffEnv (exampleBackuper ''none'') ''full'' ''*'' = Inr d \<and>
        dom d = {?title} \<and> d ?title = Some exampleTableMetadata"
    by auto
  from h v r1 r2 r3 show ?thesis by blast
qed

text \<open>
  C8 as stated fails when the remote storage is \<open>none\<close>: with a non-empty \<open>diffFrom\<close> the
  function prints that the upload is aborted and returns nil, not an error. With an
  empty backup name it returns another error.
\<close>

theorem Upload_diffFrom_counterexample:
  "Upload exampleWorld (exampleConfig ''none'') ''backup1'' ''*'' ''backup0'' False
     = ([Println (''Upload aborted: RemoteStorage set to '' @ [CHR 0x22] @ ''none'' @ [CHR 0x22])],
        Return None) \<and>
   Upload exampleWorld (exampleConfig ''s3'') [] ''*'' ''backup0'' False
     = ([PrintLocalBackups ''all''], Return (Some (Err ''select backup for upload'')))"
  by (simp add: Upload_def exampleConfig_def)

end
